theory Spec2Isabelle
  imports Main "HOL-Library.AList"
begin

section \<open>Python values, exceptions and the transport\<close>

text \<open>
  The providers are written in Python and handle decoded JSON, dictionaries, lists and
  \<^verbatim>\<open>None\<close> without static types. The values they touch are embedded in one
  datatype; a dictionary is an association list in insertion order.
\<close>

datatype pyvalue =
    VNone
  | VBool bool
  | VInt int
  | VStr string
  | VList "pyvalue list"
  | VDict "(string \<times> pyvalue) list"
  | VTuple "pyvalue list"

text \<open>The error taxonomy of \<^verbatim>\<open>waterbutler.core.exceptions\<close> that the providers name.\<close>

datatype error_kind =
    MetadataError
  | DownloadError
  | UploadError
  | DeleteError
  | RevisionsError

text \<open>
  Everything a provider can raise: a taxonomy error (its kind, the \<^verbatim>\<open>code\<close> keyword when
  one is given, the message), the path model's rejection, and the built-in exceptions of
  the Python operations used on values.
\<close>

datatype exn =
    WBError error_kind "nat option" string
  | InvalidPathError string
  | KeyError
  | IndexError
  | TypeError
  | AttributeError
  | ValueError
  | ParseError

text \<open>\<^verbatim>\<open>except exceptions.MetadataError\<close> catches exactly the taxonomy errors of that kind.\<close>

fun is_metadata_error :: "exn \<Rightarrow> bool" where
  "is_metadata_error (WBError k c m) = (k = MetadataError)"
| "is_metadata_error e = False"

text \<open>Truth value testing, as \<^verbatim>\<open>if data:\<close> performs it.\<close>

fun truthy :: "pyvalue \<Rightarrow> bool" where
  "truthy VNone = False"
| "truthy (VBool b) = b"
| "truthy (VInt i) = (i \<noteq> 0)"
| "truthy (VStr s) = (s \<noteq> [])"
| "truthy (VList xs) = (xs \<noteq> [])"
| "truthy (VDict kvs) = (kvs \<noteq> [])"
| "truthy (VTuple xs) = (xs \<noteq> [])"

text \<open>
  \<^verbatim>\<open>if revision\<close> on the optional revision argument: \<^verbatim>\<open>None\<close> and the empty string are
  both false.
\<close>

fun truthy_str :: "string option \<Rightarrow> bool" where
  "truthy_str None = False"
| "truthy_str (Some r) = (r \<noteq> [])"

text \<open>
  Subscription \<^verbatim>\<open>v[key]\<close> with a string key: only a dictionary accepts it, and a missing
  key raises.
\<close>

fun getitem_str :: "pyvalue \<Rightarrow> string \<Rightarrow> exn + pyvalue" where
  "getitem_str (VDict kvs) k = (case map_of kvs k of None \<Rightarrow> Inl KeyError | Some v \<Rightarrow> Inr v)"
| "getitem_str v k = Inl TypeError"

text \<open>
  Subscription \<^verbatim>\<open>v[0]\<close>: the first element of a sequence, a one-character string from a
  string, \<^verbatim>\<open>KeyError\<close> from a dictionary (its keys are strings).
\<close>

fun getitem_first :: "pyvalue \<Rightarrow> exn + pyvalue" where
  "getitem_first (VList xs) = (case xs of [] \<Rightarrow> Inl IndexError | x # rest \<Rightarrow> Inr x)"
| "getitem_first (VTuple xs) = (case xs of [] \<Rightarrow> Inl IndexError | x # rest \<Rightarrow> Inr x)"
| "getitem_first (VStr s) = (case s of [] \<Rightarrow> Inl IndexError | c # rest \<Rightarrow> Inr (VStr [c]))"
| "getitem_first (VDict kvs) = Inl KeyError"
| "getitem_first v = Inl TypeError"

text \<open>Item assignment \<^verbatim>\<open>v[key] = x\<close> with a string key; the dictionary keeps its order.\<close>

fun setitem_str :: "pyvalue \<Rightarrow> string \<Rightarrow> pyvalue \<Rightarrow> exn + pyvalue" where
  "setitem_str (VDict kvs) k x = Inr (VDict (AList.update k x kvs))"
| "setitem_str v k x = Inl TypeError"

text \<open>The items a \<^verbatim>\<open>for\<close> loop visits; a value that is not iterable raises.\<close>

fun py_iter :: "pyvalue \<Rightarrow> exn + pyvalue list" where
  "py_iter (VList xs) = Inr xs"
| "py_iter (VTuple xs) = Inr xs"
| "py_iter (VDict kvs) = Inr (map (\<lambda>kv. VStr (fst kv)) kvs)"
| "py_iter (VStr s) = Inr (map (\<lambda>c. VStr [c]) s)"
| "py_iter v = Inl TypeError"

text \<open>Sequencing of pure steps that may raise.\<close>

definition bind_sum :: "exn + 'a \<Rightarrow> ('a \<Rightarrow> exn + 'b) \<Rightarrow> exn + 'b" where
  "bind_sum r f = (case r of Inl e \<Rightarrow> Inl e | Inr a \<Rightarrow> f a)"

text \<open>\<^verbatim>\<open>str.split(sep)\<close>: every occurrence of the separator cuts, empty pieces are kept.\<close>

fun split_acc :: "char \<Rightarrow> string \<Rightarrow> string \<Rightarrow> string list" where
  "split_acc sep acc [] = [rev acc]"
| "split_acc sep acc (c # cs) =
     (if c = sep then rev acc # split_acc sep [] cs else split_acc sep (c # acc) cs)"

definition py_split :: "string \<Rightarrow> char \<Rightarrow> string list" where
  "py_split s sep = split_acc sep [] s"

text \<open>\<^verbatim>\<open>xs[1]\<close> on a list.\<close>

fun index1 :: "'a list \<Rightarrow> exn + 'a" where
  "index1 (x # y # rest) = Inr y"
| "index1 xs = Inl IndexError"

text \<open>\<^verbatim>\<open>str(n)\<close> for a natural number, and for a size that may be \<^verbatim>\<open>None\<close>.\<close>

function str_nat :: "nat \<Rightarrow> string" where
  "str_nat n =
     (if n < 10 then [''0123456789'' ! n]
      else str_nat (n div 10) @ [''0123456789'' ! (n mod 10)])"
  by pat_completeness auto
termination
  by (relation "measure id") auto

declare str_nat.simps [simp del]

fun str_size :: "nat option \<Rightarrow> string" where
  "str_size None = ''None''"
| "str_size (Some n) = str_nat n"

text \<open>\<^verbatim>\<open>os.path.join(a, b)\<close> on POSIX: an absolute second component replaces the first.\<close>

definition os_path_join :: "string \<Rightarrow> string \<Rightarrow> string" where
  "os_path_join a b =
     (if b \<noteq> [] \<and> hd b = CHR ''/'' then b
      else if a = [] \<or> last a = CHR ''/'' then a @ b
      else a @ ''/'' @ b)"

record stream =
  stream_size :: "nat option"
  stream_data :: string

text \<open>
  A URL is kept as the arguments it is built from: \<^verbatim>\<open>build_url(*segments, **query)\<close> over
  a base, or the plain string concatenation the WebDAV provider uses.
\<close>

datatype url =
    BuildUrl string "string list" "(string \<times> string) list"
  | PlainUrl string

text \<open>One \<^verbatim>\<open>make_request\<close> call with the keyword arguments the providers pass.\<close>

record call =
  meth :: string
  target :: url
  headers :: "(string \<times> string) list"
  payload :: "stream option"
  expects :: "nat list"
  throws :: error_kind

text \<open>
  The response of the transport collaborator: its status, what \<^verbatim>\<open>json()\<close> yields (or
  raises on an undecodable body) and what \<^verbatim>\<open>read()\<close> yields.
\<close>

record response =
  status :: nat
  json_result :: "exn + pyvalue"
  read_result :: string

text \<open>
  The system state threaded through every operation: the backend behind the transport
  (of any type \<open>'w\<close>) and the exchanges so far, oldest first, each a request with the
  response it received.
\<close>

record 'w sys =
  world :: 'w
  issued :: "(call \<times> response) list"

type_synonym ('w, 'a) io = "'w sys \<Rightarrow> (exn + 'a) \<times> 'w sys"

definition ret :: "'a \<Rightarrow> ('w, 'a) io" where
  "ret a s = (Inr a, s)"

definition raise :: "exn \<Rightarrow> ('w, 'a) io" where
  "raise e s = (Inl e, s)"

definition lift :: "exn + 'a \<Rightarrow> ('w, 'a) io" where
  "lift r s = (r, s)"

definition bind_io :: "('w, 'a) io \<Rightarrow> ('a \<Rightarrow> ('w, 'b) io) \<Rightarrow> ('w, 'b) io" where
  "bind_io m f s = (case m s of (Inl e, s') \<Rightarrow> (Inl e, s') | (Inr a, s') \<Rightarrow> f a s')"

text \<open>
  \<^verbatim>\<open>try: x = m  except MetadataError: handler  else: body(x)\<close>. Any other exception of
  \<open>m\<close> propagates; exceptions of the handler and of the else branch are not caught.
\<close>

definition try_except_metadata ::
  "('w, 'a) io \<Rightarrow> ('w, 'b) io \<Rightarrow> ('a \<Rightarrow> ('w, 'b) io) \<Rightarrow> ('w, 'b) io" where
  "try_except_metadata m handler body s =
     (case m s of
        (Inl e, s') \<Rightarrow> if is_metadata_error e then handler s' else (Inl e, s')
      | (Inr a, s') \<Rightarrow> body a s')"

section \<open>Collaborators outside the two provider modules\<close>

text \<open>
  The providers call code that is not part of the two modules: the base path class, the
  metadata serializers, the multipart encoder, the XML parser and the HTTP transport.
  Each is a field of the environment, so every theorem holds for any implementation of them.
  \<^item> \<open>transport\<close>: the HTTP round trip, which may change the backend;
  \<^item> \<open>path_ok prefix suffix raw\<close>: whether \<^verbatim>\<open>WaterButlerPath.__init__\<close> accepts the string;
  \<^item> \<open>path_name\<close>, \<open>path_path\<close>, \<open>path_str\<close>: the \<^verbatim>\<open>name\<close> and \<^verbatim>\<open>path\<close> properties and
    \<^verbatim>\<open>str()\<close> of a path built from the raw string;
  \<^item> \<open>make_upload_data stream parent_id file\<close>: the multipart encoder, yielding the body
    stream, the boundary and the total size;
  \<^item> \<open>box_file_metadata raw folder\<close>, \<open>box_folder_metadata raw folder\<close>, \<open>box_revision raw\<close>,
    \<open>owncloud_file_metadata path attrs\<close>: construction followed by \<^verbatim>\<open>serialized()\<close>;
  \<^item> \<open>xml_fromstring\<close>: \<^verbatim>\<open>ElementTree.fromstring\<close>.
\<close>

datatype xml = Element (tag: string) (text_of: "string option") (children: "xml list")

record 'w env =
  transport :: "'w \<Rightarrow> call \<Rightarrow> response \<times> 'w"
  path_ok :: "bool \<Rightarrow> bool \<Rightarrow> string \<Rightarrow> bool"
  path_name :: "string \<Rightarrow> string"
  path_path :: "bool \<Rightarrow> bool \<Rightarrow> string \<Rightarrow> string"
  path_str :: "string \<Rightarrow> string"
  make_upload_data :: "stream \<Rightarrow> string \<Rightarrow> string \<Rightarrow> exn + (stream \<times> string \<times> nat)"
  box_file_metadata :: "pyvalue \<Rightarrow> string \<Rightarrow> exn + pyvalue"
  box_folder_metadata :: "pyvalue \<Rightarrow> string \<Rightarrow> exn + pyvalue"
  box_revision :: "pyvalue \<Rightarrow> exn + pyvalue"
  owncloud_file_metadata :: "string \<Rightarrow> (string \<times> string option) list \<Rightarrow> exn + pyvalue"
  xml_fromstring :: "string \<Rightarrow> exn + xml"

text \<open>
  Modelled from the spec: \<^verbatim>\<open>BaseProvider.make_request\<close> is not in the two provider modules.
  The spec's propagation policy: one request is sent; a status outside the declared
  success set raises the declared error kind immediately, carrying the status and the
  backend's payload; nothing is retried. The exchange is recorded with the headers the
  provider passes; the provider's default headers are the same for every request.
\<close>

definition make_request :: "'w env \<Rightarrow> call \<Rightarrow> ('w, response) io" where
  "make_request env c s =
     (case transport env (world s) c of
        (resp, w') \<Rightarrow>
          (let s' = \<lparr>world = w', issued = issued s @ [(c, resp)]\<rparr>
           in if status resp \<in> set (expects c)
              then (Inr resp, s')
              else (Inl (WBError (throws c) (Some (status resp)) (read_result resp)), s')))"

section \<open>The path model\<close>

record wb_path =
  orig_path :: string

text \<open>
  Modelled from the spec: \<^verbatim>\<open>WaterButlerPath.is_dir\<close> and \<^verbatim>\<open>is_file\<close> are not in the two
  provider modules. The spec: a path is a directory when it ends with the separator and
  a file otherwise.
\<close>

definition is_dir :: "string \<Rightarrow> bool" where
  "is_dir raw = (raw \<noteq> [] \<and> last raw = CHR ''/'')"

definition is_file :: "string \<Rightarrow> bool" where
  "is_file raw = (\<not> is_dir raw)"

text \<open>
  Modelled from the spec: \<^verbatim>\<open>WaterButlerPath.__init__\<close> is not in the two provider modules.
  The spec: parsing fails with InvalidPathError on a string that violates the addressing
  rules, which \<open>path_ok\<close> decides here, and otherwise keeps the raw original string.
\<close>

definition wb_path_init :: "'w env \<Rightarrow> bool \<Rightarrow> bool \<Rightarrow> string \<Rightarrow> exn + wb_path" where
  "wb_path_init env prefix suffix raw =
     (if path_ok env prefix suffix raw then Inr \<lparr>orig_path = raw\<rparr>
      else Inl (InvalidPathError raw))"

text \<open>
  \<^verbatim>\<open>BoxPath.__init__\<close>: after the base constructor, the identifier \<^verbatim>\<open>_id\<close> is the path
  itself for the root and \<^verbatim>\<open>path.split('/')[1]\<close> otherwise.
\<close>

record box_path = wb_path +
  path_id :: string

definition BoxPath :: "'w env \<Rightarrow> string \<Rightarrow> exn + box_path" where
  "BoxPath env raw =
     bind_sum (wb_path_init env False False raw) (\<lambda>base.
       if raw \<noteq> ''/''
       then bind_sum (index1 (py_split raw CHR ''/'')) (\<lambda>i.
              Inr \<lparr>orig_path = orig_path base, path_id = i\<rparr>)
       else Inr \<lparr>orig_path = orig_path base, path_id = raw\<rparr>)"

text \<open>
  \<^verbatim>\<open>BoxPath(meta['path'])\<close> receives whatever the metadata holds under the key; a value
  that is not a string differs from \<^verbatim>\<open>'/'\<close> and has no \<^verbatim>\<open>split\<close>, so
  \<^verbatim>\<open>path.split('/')\<close> raises \<^verbatim>\<open>AttributeError\<close>.
\<close>

fun BoxPath_of_value :: "'w env \<Rightarrow> pyvalue \<Rightarrow> exn + box_path" where
  "BoxPath_of_value env (VStr raw) = BoxPath env raw"
| "BoxPath_of_value env v = Inl AttributeError"

definition OwnCloudPath :: "'w env \<Rightarrow> string \<Rightarrow> exn + wb_path" where
  "OwnCloudPath env raw = wb_path_init env False True raw"

section \<open>The Box provider\<close>

record box_provider =
  token :: string
  folder :: string
  BASE_URL :: string
  BASE_UPLOAD_URL :: string

definition box_default_headers :: "box_provider \<Rightarrow> (string \<times> string) list" where
  "box_default_headers self = [(''Authorization'', ''Bearer '' @ token self)]"

definition box_get_file_meta :: "'w env \<Rightarrow> box_provider \<Rightarrow> box_path \<Rightarrow> ('w, pyvalue) io" where
  "box_get_file_meta env self path =
     bind_io (make_request env
        \<lparr>meth = ''GET'',
         target = BuildUrl (BASE_URL self) [''files'', path_id path] [],
         headers = [], payload = None, expects = [200], throws = MetadataError\<rparr>) (\<lambda>resp.
     bind_io (lift (json_result resp)) (\<lambda>data.
       if truthy data then lift (box_file_metadata env data (folder self))
       else raise (WBError MetadataError None ''Unable to find file.'')))"

fun folder_items :: "'w env \<Rightarrow> box_provider \<Rightarrow> pyvalue list \<Rightarrow> exn + pyvalue list" where
  "folder_items env self [] = Inr []"
| "folder_items env self (item # rest) =
     bind_sum (getitem_str item ''type'') (\<lambda>t.
     bind_sum (if t = VStr ''folder'' then box_folder_metadata env item (folder self)
               else box_file_metadata env item (folder self)) (\<lambda>m.
     bind_sum (folder_items env self rest) (\<lambda>ms. Inr (m # ms))))"

definition box_get_folder_meta :: "'w env \<Rightarrow> box_provider \<Rightarrow> box_path \<Rightarrow> ('w, pyvalue) io" where
  "box_get_folder_meta env self path =
     bind_io (make_request env
        \<lparr>meth = ''GET'',
         target = BuildUrl (BASE_URL self) [''folders'', folder self, ''items''] [],
         headers = [], payload = None, expects = [200], throws = MetadataError\<rparr>) (\<lambda>resp.
     bind_io (lift (json_result resp)) (\<lambda>data.
     bind_io (lift (getitem_str data ''entries'')) (\<lambda>entries.
     bind_io (lift (py_iter entries)) (\<lambda>items.
     bind_io (lift (folder_items env self items)) (\<lambda>ms. ret (VList ms))))))"

definition box_metadata :: "'w env \<Rightarrow> box_provider \<Rightarrow> string \<Rightarrow> ('w, pyvalue) io" where
  "box_metadata env self raw =
     bind_io (lift (BoxPath env raw)) (\<lambda>path.
       if is_file (orig_path path) then box_get_file_meta env self path
       else box_get_folder_meta env self path)"

definition box_download ::
  "'w env \<Rightarrow> box_provider \<Rightarrow> string \<Rightarrow> string option \<Rightarrow> ('w, response) io" where
  "box_download env self raw revision =
     bind_io (lift (BoxPath env raw)) (\<lambda>path.
       if truthy_str revision \<and> revision \<noteq> Some (path_id path)
       then bind_io (make_request env
              \<lparr>meth = ''GET'',
               target = BuildUrl (BASE_URL self) [''files'', path_id path, ''content'']
                          [(''version'', the revision)],
               headers = [], payload = None, expects = [200], throws = DownloadError\<rparr>) ret
       else bind_io (make_request env
              \<lparr>meth = ''GET'',
               target = BuildUrl (BASE_URL self) [''files'', path_id path, ''content''] [],
               headers = [], payload = None, expects = [200], throws = DownloadError\<rparr>) ret)"

definition box_upload_create ::
  "'w env \<Rightarrow> box_provider \<Rightarrow> stream \<Rightarrow> box_path \<Rightarrow> ('w, pyvalue) io" where
  "box_upload_create env self strm path =
     bind_io (lift (make_upload_data env strm (path_id path) (path_name env (orig_path path))))
       (\<lambda>(body, boundary, nbytes).
     bind_io (make_request env
        \<lparr>meth = ''POST'',
         target = BuildUrl (BASE_UPLOAD_URL self) [''files'', ''content''] [],
         headers = [(''Content-Length'', str_nat nbytes),
                    (''Content-Type'', ''multipart/form-data; boundary='' @ boundary)],
         payload = Some body, expects = [200, 201], throws = UploadError\<rparr>) (\<lambda>resp.
     lift (json_result resp)))"

definition box_upload_update ::
  "'w env \<Rightarrow> box_provider \<Rightarrow> stream \<Rightarrow> box_path \<Rightarrow> pyvalue \<Rightarrow> ('w, pyvalue) io" where
  "box_upload_update env self strm path meta =
     bind_io (lift (getitem_str meta ''path'')) (\<lambda>mp.
     bind_io (lift (BoxPath_of_value env mp)) (\<lambda>meta_path.
     bind_io (lift (make_upload_data env strm (path_id path) (path_name env (orig_path path))))
       (\<lambda>(body, boundary, nbytes).
     bind_io (make_request env
        \<lparr>meth = ''POST'',
         target = BuildUrl (BASE_UPLOAD_URL self) [''files'', path_id meta_path, ''content''] [],
         headers = [(''Content-Length'', str_nat nbytes),
                    (''Content-Type'', ''multipart/form-data; boundary='' @ boundary)],
         payload = Some body, expects = [200, 201], throws = UploadError\<rparr>) (\<lambda>resp.
     lift (json_result resp)))))"

text \<open>
  The last line of \<^verbatim>\<open>upload\<close>: the record is serialized from the first entry of the
  backend's answer and paired with the flag.
\<close>

definition box_upload_result :: "'w env \<Rightarrow> box_provider \<Rightarrow> bool \<Rightarrow> pyvalue \<Rightarrow> ('w, pyvalue) io" where
  "box_upload_result env self created data =
     bind_io (lift (getitem_str data ''entries'')) (\<lambda>entries.
     bind_io (lift (getitem_first entries)) (\<lambda>entry.
     bind_io (lift (box_file_metadata env entry (folder self))) (\<lambda>m.
     ret (VTuple [m, VBool created]))))"

definition box_upload :: "'w env \<Rightarrow> box_provider \<Rightarrow> stream \<Rightarrow> string \<Rightarrow> ('w, pyvalue) io" where
  "box_upload env self strm raw =
     bind_io (lift (BoxPath env (os_path_join (folder self) raw))) (\<lambda>path.
       try_except_metadata (box_metadata env self (path_str env (orig_path path)))
         (bind_io (box_upload_create env self strm path) (box_upload_result env self True))
         (\<lambda>meta. bind_io (box_upload_update env self strm path meta)
                    (box_upload_result env self False)))"

definition box_delete :: "'w env \<Rightarrow> box_provider \<Rightarrow> string \<Rightarrow> ('w, pyvalue) io" where
  "box_delete env self raw =
     bind_io (lift (BoxPath env raw)) (\<lambda>path.
     bind_io (box_metadata env self (path_str env (orig_path path))) (\<lambda>verified.
     bind_io (make_request env
        \<lparr>meth = ''DELETE'',
         target = BuildUrl (BASE_URL self) [''files'', path_id path] [],
         headers = [], payload = None, expects = [204], throws = DeleteError\<rparr>) (\<lambda>resp.
     ret VNone)))"

text \<open>
  The loop of \<^verbatim>\<open>revisions\<close>: the counter is incremented before it is written into the
  item under \<^verbatim>\<open>'revision'\<close>, and the item is serialized.
\<close>

fun revision_items :: "'w env \<Rightarrow> int \<Rightarrow> pyvalue list \<Rightarrow> exn + pyvalue list" where
  "revision_items env idx [] = Inr []"
| "revision_items env idx (item # rest) =
     bind_sum (setitem_str item ''revision'' (VInt (idx + 1))) (\<lambda>item'.
     bind_sum (box_revision env item') (\<lambda>r.
     bind_sum (revision_items env (idx + 1) rest) (\<lambda>rs. Inr (r # rs))))"

definition box_revisions :: "'w env \<Rightarrow> box_provider \<Rightarrow> string \<Rightarrow> ('w, pyvalue) io" where
  "box_revisions env self raw =
     bind_io (lift (BoxPath env raw)) (\<lambda>path.
     bind_io (make_request env
        \<lparr>meth = ''GET'',
         target = BuildUrl (BASE_URL self) [''files'', path_id path, ''versions''] [],
         headers = [], payload = None, expects = [200], throws = RevisionsError\<rparr>) (\<lambda>resp.
     bind_io (lift (json_result resp)) (\<lambda>data.
     bind_io (box_metadata env self (path_str env (orig_path path))) (\<lambda>curr.
     bind_io (lift (setitem_str curr ''revision'' (VInt 1))) (\<lambda>curr'.
     bind_io (lift (box_revision env curr')) (\<lambda>r.
     bind_io (lift (getitem_str data ''entries'')) (\<lambda>entries.
     bind_io (lift (py_iter entries)) (\<lambda>items.
     bind_io (lift (revision_items env 1 items)) (\<lambda>rs.
     ret (VList (r # rs)))))))))))"

section \<open>The WebDAV provider\<close>

record owncloud_provider =
  oc_auth :: string
  webdav_url :: string

definition oc_default_headers :: "owncloud_provider \<Rightarrow> (string \<times> string) list" where
  "oc_default_headers self = [(''Authorization'', ''Basic '' @ oc_auth self)]"

text \<open>
  \<^verbatim>\<open>Element.find(tag)\<close> yields the first direct child with that tag or \<^verbatim>\<open>None\<close>;
  \<^verbatim>\<open>tree[0]\<close> raises on an element without children; calling \<^verbatim>\<open>find\<close> on \<^verbatim>\<open>None\<close> and
  iterating over \<^verbatim>\<open>None\<close> raise.
\<close>

definition xml_find :: "xml \<Rightarrow> string \<Rightarrow> xml option" where
  "xml_find e t = List.find (\<lambda>c. tag c = t) (children e)"

fun xml_first :: "xml \<Rightarrow> exn + xml" where
  "xml_first (Element t x []) = Inl IndexError"
| "xml_first (Element t x (c # cs)) = Inr c"

fun find_on :: "xml option \<Rightarrow> string \<Rightarrow> exn + xml option" where
  "find_on None t = Inl AttributeError"
| "find_on (Some e) t = Inr (xml_find e t)"

fun iter_on :: "xml option \<Rightarrow> exn + xml list" where
  "iter_on None = Inl TypeError"
| "iter_on (Some e) = Inr (children e)"

text \<open>The loop \<^verbatim>\<open>file_attrs[attr.tag] = attr.text\<close>, starting from the empty dictionary.\<close>

definition collect_attrs :: "xml list \<Rightarrow> (string \<times> string option) list" where
  "collect_attrs attrs = fold (\<lambda>attr d. AList.update (tag attr) (text_of attr) d) attrs []"

definition oc_metadata_file :: "'w env \<Rightarrow> owncloud_provider \<Rightarrow> wb_path \<Rightarrow> ('w, pyvalue) io" where
  "oc_metadata_file env self path =
     bind_io (make_request env
        \<lparr>meth = ''PROPFIND'',
         target = PlainUrl (webdav_url self @ path_path env False True (orig_path path)),
         headers = [], payload = None, expects = [207], throws = MetadataError\<rparr>) (\<lambda>resp.
     bind_io (lift (xml_fromstring env (read_result resp))) (\<lambda>tree.
     bind_io (lift (xml_first tree)) (\<lambda>first.
     bind_io (lift (find_on (Some first) ''{DAV:}propstat'')) (\<lambda>propstat.
     bind_io (lift (find_on propstat ''{DAV:}prop'')) (\<lambda>prop.
     bind_io (lift (iter_on prop)) (\<lambda>attrs.
     lift (owncloud_file_metadata env (path_path env False True (orig_path path))
             (collect_attrs attrs))))))))"

definition oc_metadata_folder :: "'w env \<Rightarrow> owncloud_provider \<Rightarrow> wb_path \<Rightarrow> ('w, pyvalue) io" where
  "oc_metadata_folder env self path = ret VNone"

definition oc_metadata :: "'w env \<Rightarrow> owncloud_provider \<Rightarrow> string \<Rightarrow> ('w, pyvalue) io" where
  "oc_metadata env self raw =
     bind_io (lift (OwnCloudPath env raw)) (\<lambda>path.
       if is_dir (orig_path path) then oc_metadata_folder env self path
       else oc_metadata_file env self path)"

definition oc_download :: "'w env \<Rightarrow> owncloud_provider \<Rightarrow> string \<Rightarrow> ('w, response) io" where
  "oc_download env self raw =
     bind_io (lift (OwnCloudPath env raw)) (\<lambda>path.
       if \<not> is_file (orig_path path)
       then raise (WBError DownloadError (Some 400) ''No file specified for download'')
       else bind_io (make_request env
              \<lparr>meth = ''GET'',
               target = PlainUrl (webdav_url self @ path_path env False True (orig_path path)),
               headers = [], payload = None, expects = [200], throws = DownloadError\<rparr>) ret)"

definition oc_upload :: "'w env \<Rightarrow> owncloud_provider \<Rightarrow> stream \<Rightarrow> string \<Rightarrow> ('w, pyvalue) io" where
  "oc_upload env self strm raw =
     bind_io (make_request env
        \<lparr>meth = ''PUT'',
         target = PlainUrl (webdav_url self @ raw),
         headers = [(''Content-Length'', str_size (stream_size strm))],
         payload = Some strm, expects = [201], throws = UploadError\<rparr>) (\<lambda>resp.
     ret (VBool True))"

definition oc_delete :: "'w env \<Rightarrow> owncloud_provider \<Rightarrow> string \<Rightarrow> ('w, pyvalue) io" where
  "oc_delete env self raw =
     bind_io (make_request env
        \<lparr>meth = ''DELETE'',
         target = PlainUrl (webdav_url self @ raw),
         headers = [], payload = None, expects = [204], throws = DeleteError\<rparr>) (\<lambda>resp.
     ret (VBool True))"

section \<open>The propagation policy as a property of operations\<close>

text \<open>
  An exchange is rejected when its status is outside the success set its request
  declared; the failure a request declares is the taxonomy error of its \<^verbatim>\<open>throws\<close> kind
  with the status and the payload.
\<close>

definition rejected :: "call \<times> response \<Rightarrow> bool" where
  "rejected x = (status (snd x) \<notin> set (expects (fst x)))"

definition declared_failure :: "call \<times> response \<Rightarrow> exn" where
  "declared_failure x = WBError (throws (fst x)) (Some (status (snd x))) (read_result (snd x))"

text \<open>
  An operation propagates rejected statuses when, from every state, the exchanges it
  adds
  \<^item> all declare a kind among \<open>kinds\<close>,
  \<^item> contain no rejected exchange before the last one, other than those whose kind is in
    \<open>caught\<close>, and
  \<^item> end, when the last one is rejected and its kind is not in \<open>caught\<close>, with the
    operation raising exactly the failure that request declared.

  With \<open>caught\<close> empty, a rejected status therefore ends the operation at once: nothing
  is sent after it, in particular no retry.
\<close>

definition propagates :: "error_kind set \<Rightarrow> error_kind set \<Rightarrow> ('w, 'a) io \<Rightarrow> bool" where
  "propagates caught kinds m =
     (\<forall>s. \<exists>new.
        issued (snd (m s)) = issued s @ new \<and>
        (\<forall>x \<in> set new. throws (fst x) \<in> kinds) \<and>
        (\<forall>x \<in> set (butlast new). rejected x \<longrightarrow> throws (fst x) \<in> caught) \<and>
        (new \<noteq> [] \<longrightarrow> rejected (last new) \<longrightarrow> throws (fst (last new)) \<notin> caught \<longrightarrow>
           fst (m s) = Inl (declared_failure (last new))))"

text \<open>
  A request is answered outside its success set in a state when the status the transport
  gives it there is not among the expected ones; failing with a request is raising the
  error it declares, with that status and payload, after exactly that one exchange.
\<close>

definition answered_outside :: "'w env \<Rightarrow> call \<Rightarrow> 'w sys \<Rightarrow> bool" where
  "answered_outside env c s = (status (fst (transport env (world s) c)) \<notin> set (expects c))"

definition fails_with :: "'w env \<Rightarrow> call \<Rightarrow> 'w sys \<Rightarrow> (exn + 'a) \<times> 'w sys" where
  "fails_with env c s =
     (Inl (WBError (throws c) (Some (status (fst (transport env (world s) c))))
             (read_result (fst (transport env (world s) c)))),
      \<lparr>world = snd (transport env (world s) c),
       issued = issued s @ [(c, fst (transport env (world s) c))]\<rparr>)"

section \<open>A scripted backend for concrete runs\<close>

text \<open>
  For runs on concrete inputs the collaborators are instantiated: the transport answers
  from a script (the backend state is the list of responses still to come, and a 500
  once it is exhausted); the path model accepts the strings that start with the
  separator and formats a path without prefix by dropping the leading separators; the
  serializers hand the raw item through; the encoder needs a known size.
\<close>

definition scripted :: "response list \<Rightarrow> call \<Rightarrow> response \<times> response list" where
  "scripted w c =
     (case w of
        [] \<Rightarrow> (\<lparr>status = 500, json_result = Inl ValueError, read_result = []\<rparr>, [])
      | r # rs \<Rightarrow> (r, rs))"

definition demo_tree :: xml where
  "demo_tree =
     Element ''{DAV:}multistatus'' None
       [Element ''{DAV:}response'' None
          [Element ''{DAV:}href'' (Some ''/a.txt'') [],
           Element ''{DAV:}propstat'' None
             [Element ''{DAV:}prop'' None
                [Element ''{DAV:}getetag'' (Some ''e1'') [],
                 Element ''{DAV:}resourcetype'' None []],
              Element ''{DAV:}status'' (Some ''HTTP/1.1 200 OK'') []],
           Element ''{DAV:}propstat'' None
             [Element ''{DAV:}prop'' None
                [Element ''{DAV:}getetag'' (Some ''e2'') []]]]]"

definition demo_env :: "(response list) env" where
  "demo_env =
     \<lparr>transport = scripted,
      path_ok = (\<lambda>prefix suffix raw. raw \<noteq> [] \<and> hd raw = CHR ''/''),
      path_name = (\<lambda>raw. last (py_split raw CHR ''/'')),
      path_path = (\<lambda>prefix suffix raw. if prefix then raw else dropWhile (\<lambda>c. c = CHR ''/'') raw),
      path_str = (\<lambda>raw. raw),
      make_upload_data = (\<lambda>strm parent file.
         case stream_size strm of None \<Rightarrow> Inl ValueError | Some n \<Rightarrow> Inr (strm, ''b'', n)),
      box_file_metadata = (\<lambda>raw fld. Inr raw),
      box_folder_metadata = (\<lambda>raw fld. Inr raw),
      box_revision = (\<lambda>raw. Inr raw),
      owncloud_file_metadata = (\<lambda>p attrs.
         Inr (VDict (map (\<lambda>kv. (fst kv, case snd kv of None \<Rightarrow> VNone | Some t \<Rightarrow> VStr t))
                       attrs))),
      xml_fromstring = (\<lambda>data. if data = ''xml'' then Inr demo_tree else Inl ParseError)\<rparr>"

definition demo_box :: box_provider where
  "demo_box = \<lparr>token = ''t'', folder = ''0'', BASE_URL = ''api'', BASE_UPLOAD_URL = ''up''\<rparr>"

definition demo_oc :: owncloud_provider where
  "demo_oc = \<lparr>oc_auth = ''dTpw'', webdav_url = ''dav/''\<rparr>"

definition answer :: "nat \<Rightarrow> pyvalue \<Rightarrow> response" where
  "answer code v = \<lparr>status = code, json_result = Inr v, read_result = ''xml''\<rparr>"

definition start :: "response list \<Rightarrow> (response list) sys" where
  "start script = \<lparr>world = script, issued = []\<rparr>"

text \<open>
  A backend that stores files: its state is the list of the identifiers it holds. A
  lookup of a held identifier is answered 200 and any other 404; a create-upload stores
  a file under the next identifier \<^verbatim>\<open>f0\<close>, \<^verbatim>\<open>f1\<close>, ... and is answered 201 with the new
  entry; an update-upload of a held identifier is answered 200. The record of a file has
  the path \<^verbatim>\<open>/<identifier>\<close>, the form \<^verbatim>\<open>_upload_update\<close> relies on when it takes the
  identifier from \<^verbatim>\<open>meta['path']\<close>.
\<close>

definition store_transport :: "string list \<Rightarrow> call \<Rightarrow> response \<times> string list" where
  "store_transport held c =
     (let missing = \<lparr>status = 404, json_result = Inr VNone, read_result = []\<rparr>;
          found = (\<lambda>fid. \<lparr>status = 200, json_result = Inr (VDict [(''id'', VStr fid)]),
                           read_result = []\<rparr>);
          stored = (\<lambda>code fid.
                      \<lparr>status = code,
                       json_result = Inr (VDict [(''entries'', VList [VDict [(''id'', VStr fid)]])]),
                       read_result = []\<rparr>)
      in case target c of
           PlainUrl u \<Rightarrow> (missing, held)
         | BuildUrl base segs query \<Rightarrow>
             (if meth c = ''GET'' then
                (case segs of
                   [kind, fid] \<Rightarrow>
                     if kind = ''files'' \<and> fid \<in> set held then (found fid, held)
                     else (missing, held)
                 | _ \<Rightarrow> (missing, held))
              else if meth c = ''POST'' then
                (case segs of
                   [kind, tail] \<Rightarrow>
                     (stored 201 (''f'' @ str_nat (length held)),
                      held @ [''f'' @ str_nat (length held)])
                 | [kind, fid, tail] \<Rightarrow>
                     if fid \<in> set held then (stored 200 fid, held) else (missing, held)
                 | _ \<Rightarrow> (missing, held))
              else (missing, held)))"

definition store_env :: "(string list) env" where
  "store_env =
     \<lparr>transport = store_transport,
      path_ok = (\<lambda>prefix suffix raw. raw \<noteq> [] \<and> hd raw = CHR ''/''),
      path_name = (\<lambda>raw. last (py_split raw CHR ''/'')),
      path_path = (\<lambda>prefix suffix raw. if prefix then raw else dropWhile (\<lambda>c. c = CHR ''/'') raw),
      path_str = (\<lambda>raw. raw),
      make_upload_data = (\<lambda>strm parent file.
         case stream_size strm of None \<Rightarrow> Inl ValueError | Some n \<Rightarrow> Inr (strm, ''b'', n)),
      box_file_metadata = (\<lambda>raw fld.
         bind_sum (getitem_str raw ''id'') (\<lambda>v.
           case v of VStr fid \<Rightarrow> Inr (VDict [(''id'', v), (''path'', VStr (''/'' @ fid))])
                   | _ \<Rightarrow> Inl TypeError)),
      box_folder_metadata = (\<lambda>raw fld. Inr raw),
      box_revision = (\<lambda>raw. Inr raw),
      owncloud_file_metadata = (\<lambda>p attrs. Inr VNone),
      xml_fromstring = (\<lambda>data. Inl ParseError)\<rparr>"

section \<open>Sequencing laws\<close>

lemma bind_io_lift_Inr [simp]: "bind_io (lift (Inr a)) f s = f a s"
  by (simp add: bind_io_def lift_def)

lemma bind_io_lift_Inl [simp]: "bind_io (lift (Inl e)) f s = (Inl e, s)"
  by (simp add: bind_io_def lift_def)

lemma bind_io_ret [simp]: "bind_io (ret a) f s = f a s"
  by (simp add: bind_io_def ret_def)

lemma bind_io_raise [simp]: "bind_io (raise e) f s = (Inl e, s)"
  by (simp add: bind_io_def raise_def)

lemma bind_io_ret_right [simp]: "bind_io m ret = m"
  by (rule ext) (simp add: bind_io_def ret_def split: prod.splits sum.splits)

lemma make_request_run:
  "make_request env c s =
     (if status (fst (transport env (world s) c)) \<in> set (expects c)
      then Inr (fst (transport env (world s) c))
      else Inl (WBError (throws c) (Some (status (fst (transport env (world s) c))))
                  (read_result (fst (transport env (world s) c)))),
      \<lparr>world = snd (transport env (world s) c),
       issued = issued s @ [(c, fst (transport env (world s) c))]\<rparr>)"
  by (simp add: make_request_def Let_def split: prod.splits)

lemma bind_io_make_request:
  "bind_io (make_request env c) f s =
     (if status (fst (transport env (world s) c)) \<in> set (expects c)
      then f (fst (transport env (world s) c))
             \<lparr>world = snd (transport env (world s) c),
              issued = issued s @ [(c, fst (transport env (world s) c))]\<rparr>
      else (Inl (WBError (throws c) (Some (status (fst (transport env (world s) c))))
                   (read_result (fst (transport env (world s) c)))),
            \<lparr>world = snd (transport env (world s) c),
             issued = issued s @ [(c, fst (transport env (world s) c))]\<rparr>))"
  by (simp add: bind_io_def make_request_run)

lemma bind_io_lift_Inr_iff:
  "bind_io (lift r) f s = (Inr b, s') \<longleftrightarrow> (\<exists>a. r = Inr a \<and> f a s = (Inr b, s'))"
  by (cases r) simp_all

lemma lift_Inr_iff: "lift r s = (Inr b, s') \<longleftrightarrow> r = Inr b \<and> s' = s"
  by (auto simp: lift_def)

lemma bind_io_Inr_iff:
  "bind_io m f s = (Inr b, s') \<longleftrightarrow> (\<exists>a s1. m s = (Inr a, s1) \<and> f a s1 = (Inr b, s'))"
  by (auto simp: bind_io_def split: prod.splits sum.splits)

lemma ret_Inr_iff: "ret a s = (Inr b, s') \<longleftrightarrow> a = b \<and> s' = s"
  by (auto simp: ret_def)

lemma bind_sum_Inr_iff:
  "bind_sum r f = Inr b \<longleftrightarrow> (\<exists>a. r = Inr a \<and> f a = Inr b)"
  by (cases r) (simp_all add: bind_sum_def)

lemma bind_io_run:
  "m s = (r, s1) \<Longrightarrow>
   bind_io m f s = (case r of Inl e \<Rightarrow> (Inl e, s1) | Inr a \<Rightarrow> f a s1)"
  by (simp add: bind_io_def)

lemma make_request_Inr_iff:
  "make_request env c s = (Inr resp, s') \<longleftrightarrow>
     resp = fst (transport env (world s) c) \<and> status resp \<in> set (expects c) \<and>
     s' = \<lparr>world = snd (transport env (world s) c), issued = issued s @ [(c, resp)]\<rparr>"
  by (auto simp: make_request_run)

section \<open>Rejected downloads\<close>

text \<open>
  C10. On a path that the path model accepts and that is not a file (it ends with the
  separator), the WebDAV download raises DownloadError with code 400; the state it
  returns is the state it was given, so no request was issued and the backend is
  untouched.
\<close>

theorem oc_download_directory_rejected:
  assumes "path_ok env False True raw" and "\<not> is_file raw"
  shows "oc_download env self raw s =
           (Inl (WBError DownloadError (Some 400) ''No file specified for download''), s)"
  using assms by (simp add: oc_download_def OwnCloudPath_def wb_path_init_def raise_def)

theorem oc_download_directory_rejected_witness:
  "path_ok demo_env False True ''/docs/'' \<and> \<not> is_file ''/docs/'' \<and>
   oc_download demo_env demo_oc ''/docs/'' (start []) =
     (Inl (WBError DownloadError (Some 400) ''No file specified for download''), start [])"
  using oc_download_directory_rejected [of demo_env "''/docs/''" demo_oc "start []"]
  by (simp add: demo_env_def is_file_def is_dir_def)

section \<open>Directory metadata on the WebDAV provider\<close>

text \<open>
  C9. On a path that the path model accepts and that ends with the separator, the WebDAV
  metadata operation returns \<^verbatim>\<open>None\<close>: the result is a value, not an exception, and the
  state it returns is the state it was given, so no request was issued.
\<close>

theorem oc_metadata_directory_none:
  assumes "path_ok env False True raw" and "is_dir raw"
  shows "oc_metadata env self raw s = (Inr VNone, s)"
  using assms
  by (simp add: oc_metadata_def OwnCloudPath_def wb_path_init_def oc_metadata_folder_def ret_def)

theorem oc_metadata_directory_none_witness:
  "path_ok demo_env False True ''/docs/'' \<and> is_dir ''/docs/'' \<and>
   oc_metadata demo_env demo_oc ''/docs/'' (start [answer 207 VNone]) =
     (Inr VNone, start [answer 207 VNone])"
  using oc_metadata_directory_none [of demo_env "''/docs/''" demo_oc "start [answer 207 VNone]"]
  by (simp add: demo_env_def is_dir_def)

section \<open>The identifier of a Box path\<close>

text \<open>Splitting cuts at the first separator and goes on behind it.\<close>

lemma split_acc_takeWhile:
  "split_acc sep acc cs =
     (rev acc @ takeWhile (\<lambda>c. c \<noteq> sep) cs) #
       (case dropWhile (\<lambda>c. c \<noteq> sep) cs of [] \<Rightarrow> [] | c # rest \<Rightarrow> split_acc sep [] rest)"
  by (induction cs arbitrary: acc) auto

lemma index1_split:
  "index1 (py_split raw sep) =
     (case dropWhile (\<lambda>c. c \<noteq> sep) raw of
        [] \<Rightarrow> Inl IndexError
      | c # rest \<Rightarrow> Inr (takeWhile (\<lambda>c. c \<noteq> sep) rest))"
proof (cases "dropWhile (\<lambda>c. c \<noteq> sep) raw")
  case Nil
  have "py_split raw sep = [takeWhile (\<lambda>c. c \<noteq> sep) raw]"
    unfolding py_split_def
    by (subst split_acc_takeWhile) (simp only: Nil list.case rev.simps append_Nil)
  with Nil show ?thesis by (simp del: dropWhile_eq_Nil_conv)
next
  case (Cons c rest)
  have "py_split raw sep = takeWhile (\<lambda>c. c \<noteq> sep) raw # split_acc sep [] rest"
    unfolding py_split_def
    by (subst split_acc_takeWhile) (simp only: Cons list.case rev.simps append_Nil)
  moreover have "split_acc sep [] rest =
      takeWhile (\<lambda>c. c \<noteq> sep) rest #
        (case dropWhile (\<lambda>c. c \<noteq> sep) rest of [] \<Rightarrow> [] | c # r \<Rightarrow> split_acc sep [] r)"
    by (subst split_acc_takeWhile) (simp only: rev.simps append_Nil)
  ultimately show ?thesis using Cons by simp
qed

text \<open>
  C8. Whenever the Box path constructor accepts a string, the path it builds keeps the
  string and carries an identifier fixed by that string alone: the string itself for the
  root \<^verbatim>\<open>'/'\<close>, and otherwise the segment that follows the first separator, which for a
  string with a leading separator is its first segment. The path is a value: the
  operations read \<open>path_id\<close> and none of them writes it.
\<close>

theorem box_path_identity:
  assumes "BoxPath env raw = Inr p"
  shows "orig_path p = raw \<and>
         path_id p =
           (if raw = ''/'' then ''/''
            else takeWhile (\<lambda>c. c \<noteq> CHR ''/'') (tl (dropWhile (\<lambda>c. c \<noteq> CHR ''/'') raw))) \<and>
         (raw \<noteq> ''/'' \<longrightarrow> hd raw = CHR ''/'' \<longrightarrow>
            path_id p = takeWhile (\<lambda>c. c \<noteq> CHR ''/'') (tl raw))"
  using assms
  by (cases raw)
     (auto simp: BoxPath_def bind_sum_def wb_path_init_def index1_split
           split: if_splits sum.splits list.splits)

theorem box_path_identity_witness:
  "BoxPath demo_env ''/42/a.txt'' = Inr \<lparr>orig_path = ''/42/a.txt'', path_id = ''42''\<rparr> \<and>
   BoxPath demo_env ''/'' = Inr \<lparr>orig_path = ''/'', path_id = ''/''\<rparr>"
  using box_path_identity [of demo_env "''/42/a.txt''" "\<lparr>orig_path = ''/42/a.txt'', path_id = ''42''\<rparr>"]
    box_path_identity [of demo_env "''/''" "\<lparr>orig_path = ''/'', path_id = ''/''\<rparr>"]
  by (simp add: BoxPath_def bind_sum_def wb_path_init_def demo_env_def py_split_def)

section \<open>Choosing the version to download\<close>

text \<open>
  C6, as amended. For a path the Box constructor accepts, download sends exactly one GET
  for the content of the file with the path's identifier. The request carries the
  \<^verbatim>\<open>version\<close> query parameter, set to the revision, exactly when a revision is supplied,
  is not the empty string and differs from the path's identifier; otherwise it carries
  no query. In both cases only status 200 is expected and any other status raises
  DownloadError with that status.
\<close>

theorem box_download_version_choice:
  assumes "BoxPath env raw = Inr path"
  shows "box_download env self raw revision s =
     (let versioned = (revision \<noteq> None \<and> revision \<noteq> Some [] \<and> revision \<noteq> Some (path_id path));
          c = \<lparr>meth = ''GET'',
               target = BuildUrl (BASE_URL self) [''files'', path_id path, ''content'']
                          (if versioned then [(''version'', the revision)] else []),
               headers = [], payload = None, expects = [200], throws = DownloadError\<rparr>;
          resp = fst (transport env (world s) c)
      in (if status resp = 200 then Inr resp
          else Inl (WBError DownloadError (Some (status resp)) (read_result resp)),
          \<lparr>world = snd (transport env (world s) c), issued = issued s @ [(c, resp)]\<rparr>))"
  using assms
  by (cases revision) (simp_all add: box_download_def make_request_run Let_def)

theorem box_download_version_choice_witness:
  "BoxPath demo_env ''/42'' = Inr \<lparr>orig_path = ''/42'', path_id = ''42''\<rparr> \<and>
   map (target \<circ> fst) (issued (snd (box_download demo_env demo_box ''/42'' (Some ''7'') (start [answer 200 VNone]))))
     = [BuildUrl ''api'' [''files'', ''42'', ''content''] [(''version'', ''7'')]] \<and>
   map (target \<circ> fst) (issued (snd (box_download demo_env demo_box ''/42'' (Some ''42'') (start [answer 200 VNone]))))
     = [BuildUrl ''api'' [''files'', ''42'', ''content''] []] \<and>
   map (target \<circ> fst) (issued (snd (box_download demo_env demo_box ''/42'' None (start [answer 200 VNone]))))
     = [BuildUrl ''api'' [''files'', ''42'', ''content''] []] \<and>
   fst (box_download demo_env demo_box ''/42'' (Some ''7'') (start [answer 404 VNone]))
     = Inl (WBError DownloadError (Some 404) ''xml'')"
proof -
  have p: "BoxPath demo_env ''/42'' = Inr \<lparr>orig_path = ''/42'', path_id = ''42''\<rparr>"
    by (simp add: BoxPath_def bind_sum_def wb_path_init_def demo_env_def py_split_def)
  show ?thesis
    using p box_download_version_choice [OF p, of demo_box "Some ''7''" "start [answer 200 VNone]"]
      box_download_version_choice [OF p, of demo_box "Some ''42''" "start [answer 200 VNone]"]
      box_download_version_choice [OF p, of demo_box None "start [answer 200 VNone]"]
      box_download_version_choice [OF p, of demo_box "Some ''7''" "start [answer 404 VNone]"]
    by (simp add: Let_def demo_env_def demo_box_def scripted_def start_def answer_def)
qed

text \<open>
  A revision supplied as the empty string differs from the identifier \<^verbatim>\<open>42\<close>, yet it fails
  the truth test of \<^verbatim>\<open>if revision and ...\<close>: the request carries no \<^verbatim>\<open>version\<close>
  parameter and the current content is fetched.
\<close>

theorem box_download_empty_revision_counterexample:
  "box_download demo_env demo_box ''/42'' (Some []) (start [answer 200 VNone]) =
     (Inr (answer 200 VNone),
      \<lparr>world = [],
       issued = [(\<lparr>meth = ''GET'',
                   target = BuildUrl ''api'' [''files'', ''42'', ''content''] [],
                   headers = [], payload = None, expects = [200], throws = DownloadError\<rparr>,
                  answer 200 VNone)]\<rparr>)"
  by (simp add: box_download_def BoxPath_def bind_sum_def wb_path_init_def py_split_def
      make_request_run demo_env_def demo_box_def scripted_def start_def answer_def)

section \<open>Extracting the properties of a WebDAV file\<close>










section \<open>Numbering the revisions\<close>

lemma setitem_then_getitem:
  "setitem_str x k v = Inr y \<Longrightarrow> getitem_str y k = Inr v"
  by (cases x) (auto simp: update_conv)

lemma revision_items_numbering:
  "revision_items env idx items = Inr rs \<Longrightarrow>
   length rs = length items \<and>
   (\<forall>k < length items. \<exists>numbered.
      setitem_str (items ! k) ''revision'' (VInt (idx + 1 + int k)) = Inr numbered \<and>
      box_revision env numbered = Inr (rs ! k))"
proof (induction items arbitrary: idx rs)
  case Nil
  then show ?case by simp
next
  case (Cons item rest)
  from Cons.prems obtain item' r rs' where
    set: "setitem_str item ''revision'' (VInt (idx + 1)) = Inr item'" and
    ser: "box_revision env item' = Inr r" and
    rec: "revision_items env (idx + 1) rest = Inr rs'" and
    rs: "rs = r # rs'"
    by (auto simp: bind_sum_Inr_iff)
  from Cons.IH [OF rec] have
    len: "length rs' = length rest" and
    ih: "\<And>k. k < length rest \<Longrightarrow> \<exists>numbered.
           setitem_str (rest ! k) ''revision'' (VInt (idx + 1 + 1 + int k)) = Inr numbered \<and>
           box_revision env numbered = Inr (rs' ! k)"
    by auto
  show ?case
  proof (intro conjI allI impI)
    show "length rs = length (item # rest)" using len rs by simp
  next
    fix k assume k: "k < length (item # rest)"
    show "\<exists>numbered.
      setitem_str ((item # rest) ! k) ''revision'' (VInt (idx + 1 + int k)) = Inr numbered \<and>
      box_revision env numbered = Inr (rs ! k)"
    proof (cases k)
      case 0
      then show ?thesis using set ser rs by simp
    next
      case (Suc j)
      with k have "j < length rest" by simp
      from ih [OF this] Suc rs show ?thesis
        by (simp add: algebra_simps)
    qed
  qed
qed

lemma box_revisions_returned:
  assumes run: "box_revisions env self raw s = (Inr v, s')"
  shows "\<exists>path resp s1 data curr entries items rs.
      BoxPath env raw = Inr path \<and>
      make_request env
        \<lparr>meth = ''GET'',
         target = BuildUrl (BASE_URL self) [''files'', path_id path, ''versions''] [],
         headers = [], payload = None, expects = [200], throws = RevisionsError\<rparr> s
        = (Inr resp, s1) \<and>
      json_result resp = Inr data \<and>
      box_metadata env self (path_str env raw) s1 = (Inr curr, s') \<and>
      getitem_str data ''entries'' = Inr entries \<and>
      py_iter entries = Inr items \<and>
      v = VList rs \<and>
      length rs = Suc (length items) \<and>
      (\<forall>k < length rs. \<exists>numbered.
         setitem_str ((curr # items) ! k) ''revision'' (VInt (int k + 1)) = Inr numbered \<and>
         getitem_str numbered ''revision'' = Inr (VInt (int k + 1)) \<and>
         box_revision env numbered = Inr (rs ! k))"
proof -
  from run obtain path resp s1 data curr curr' r entries items rs where
    p: "BoxPath env raw = Inr path" and
    req: "make_request env
        \<lparr>meth = ''GET'',
         target = BuildUrl (BASE_URL self) [''files'', path_id path, ''versions''] [],
         headers = [], payload = None, expects = [200], throws = RevisionsError\<rparr> s
        = (Inr resp, s1)" and
    js: "json_result resp = Inr data" and
    md: "box_metadata env self (path_str env (orig_path path)) s1 = (Inr curr, s')" and
    set: "setitem_str curr ''revision'' (VInt 1) = Inr curr'" and
    ser: "box_revision env curr' = Inr r" and
    en: "getitem_str data ''entries'' = Inr entries" and
    it: "py_iter entries = Inr items" and
    lp: "revision_items env 1 items = Inr rs" and
    v: "v = VList (r # rs)"
    unfolding box_revisions_def
    by (auto simp: bind_io_lift_Inr_iff bind_io_Inr_iff ret_Inr_iff lift_Inr_iff)
  have orig: "orig_path path = raw"
    using p by (auto simp: BoxPath_def bind_sum_Inr_iff wb_path_init_def split: if_splits)
  from revision_items_numbering [OF lp] have
    len: "length rs = length items" and
    num: "\<And>k. k < length items \<Longrightarrow> \<exists>numbered.
           setitem_str (items ! k) ''revision'' (VInt (1 + 1 + int k)) = Inr numbered \<and>
           box_revision env numbered = Inr (rs ! k)"
    by auto
  have each: "\<exists>numbered.
         setitem_str ((curr # items) ! k) ''revision'' (VInt (int k + 1)) = Inr numbered \<and>
         getitem_str numbered ''revision'' = Inr (VInt (int k + 1)) \<and>
         box_revision env numbered = Inr ((r # rs) ! k)"
    if "k < length (r # rs)" for k
  proof (cases k)
    case 0
    then show ?thesis using set ser setitem_then_getitem [OF set] by simp
  next
    case (Suc j)
    with that len have "j < length items" by simp
    from num [OF this] obtain numbered where
      n: "setitem_str (items ! j) ''revision'' (VInt (1 + 1 + int j)) = Inr numbered"
         "box_revision env numbered = Inr (rs ! j)"
      by blast
    have "(1::int) + 1 + int j = int (Suc j) + 1" by simp
    with n setitem_then_getitem [OF n(1)] Suc show ?thesis by simp
  qed
  show ?thesis
    using p req js md en it v len each orig by (auto simp del: length_Cons simp: )
qed

lemma revision_items_complete:
  "length rs = length items \<Longrightarrow>
   (\<forall>k < length items. \<exists>numbered.
      setitem_str (items ! k) ''revision'' (VInt (idx + 1 + int k)) = Inr numbered \<and>
      box_revision env numbered = Inr (rs ! k)) \<Longrightarrow>
   revision_items env idx items = Inr rs"
proof (induction items arbitrary: idx rs)
  case Nil
  then show ?case by simp
next
  case (Cons item rest)
  from Cons.prems(1) obtain r rs' where rs: "rs = r # rs'" and len: "length rs' = length rest"
    by (cases rs) auto
  from Cons.prems(2) [rule_format, of 0] rs obtain item' where
    first: "setitem_str item ''revision'' (VInt (idx + 1)) = Inr item'"
           "box_revision env item' = Inr r"
    by auto
  have "\<forall>k < length rest. \<exists>numbered.
      setitem_str (rest ! k) ''revision'' (VInt (idx + 1 + 1 + int k)) = Inr numbered \<and>
      box_revision env numbered = Inr (rs' ! k)"
  proof (intro allI impI)
    fix k assume "k < length rest"
    then have "Suc k < length (item # rest)" by simp
    from Cons.prems(2) [rule_format, OF this] rs
    show "\<exists>numbered.
      setitem_str (rest ! k) ''revision'' (VInt (idx + 1 + 1 + int k)) = Inr numbered \<and>
      box_revision env numbered = Inr (rs' ! k)"
      by (simp add: algebra_simps)
  qed
  from Cons.IH [OF len this] first rs show ?case
    by (simp add: bind_sum_def)
qed

lemma box_revisions_produced:
  assumes p: "BoxPath env raw = Inr path"
      and req: "make_request env
        \<lparr>meth = ''GET'',
         target = BuildUrl (BASE_URL self) [''files'', path_id path, ''versions''] [],
         headers = [], payload = None, expects = [200], throws = RevisionsError\<rparr> s
        = (Inr resp, s1)"
      and js: "json_result resp = Inr data"
      and md: "box_metadata env self (path_str env raw) s1 = (Inr cur, s')"
      and en: "getitem_str data ''entries'' = Inr entries"
      and it: "py_iter entries = Inr items"
      and len: "length rs = Suc (length items)"
      and each: "\<forall>k < length rs. \<exists>numbered.
         setitem_str ((cur # items) ! k) ''revision'' (VInt (int k + 1)) = Inr numbered \<and>
         getitem_str numbered ''revision'' = Inr (VInt (int k + 1)) \<and>
         box_revision env numbered = Inr (rs ! k)"
  shows "box_revisions env self raw s = (Inr (VList rs), s')"
proof -
  have orig: "orig_path path = raw"
    using p by (auto simp: BoxPath_def bind_sum_Inr_iff wb_path_init_def split: if_splits)
  from len obtain r rs' where rs: "rs = r # rs'" and len': "length rs' = length items"
    by (cases rs) auto
  from each [rule_format, of 0] rs obtain cur' where
    first: "setitem_str cur ''revision'' (VInt 1) = Inr cur'" "box_revision env cur' = Inr r"
    by auto
  have "\<forall>k < length items. \<exists>numbered.
      setitem_str (items ! k) ''revision'' (VInt (1 + 1 + int k)) = Inr numbered \<and>
      box_revision env numbered = Inr (rs' ! k)"
  proof (intro allI impI)
    fix k assume "k < length items"
    then have "Suc k < length rs" using len by simp
    from each [rule_format, OF this] rs
    show "\<exists>numbered.
      setitem_str (items ! k) ''revision'' (VInt (1 + 1 + int k)) = Inr numbered \<and>
      box_revision env numbered = Inr (rs' ! k)"
      by (auto simp: algebra_simps)
  qed
  from revision_items_complete [OF len' this]
  have lp: "revision_items env 1 items = Inr rs'" .
  show ?thesis
    unfolding box_revisions_def
    by (simp add: p orig js en it first lp rs ret_def
        bind_io_run [of "make_request env
          \<lparr>meth = ''GET'',
           target = BuildUrl (BASE_URL self) [''files'', path_id path, ''versions''] [],
           headers = [], payload = None, expects = [200], throws = RevisionsError\<rparr>" s, OF req]
        bind_io_run [of "box_metadata env self (path_str env raw)" s1, OF md])
qed

text \<open>
  C3. The Box revisions operation returns a value exactly when the backend answers the
  versions request with 200 and a body whose \<^verbatim>\<open>entries\<close> can be iterated, the fresh
  metadata call for the same path that follows returns, and the current metadata and
  each entry accept the number and are serialized. The value is then a list \<open>rs\<close> with
  one entry more than the backend supplied, hence never empty: with no entries at all it
  is the one record of the current version. Entry \<open>k\<close> (counted from 0) is the
  serialization of the \<open>k\<close>-th item of the sequence made of the current metadata
  followed by the backend's entries in their order, after \<^verbatim>\<open>'revision'\<close> has been set to
  \<open>k + 1\<close> in it: the current version is number 1, the backend's entries follow from 2
  on, without gaps.
\<close>

theorem box_revisions_numbering:
  "box_revisions env self raw s = (Inr v, s') \<longleftrightarrow>
   (\<exists>path resp s1 data curr entries items rs.
      BoxPath env raw = Inr path \<and>
      make_request env
        \<lparr>meth = ''GET'',
         target = BuildUrl (BASE_URL self) [''files'', path_id path, ''versions''] [],
         headers = [], payload = None, expects = [200], throws = RevisionsError\<rparr> s
        = (Inr resp, s1) \<and>
      json_result resp = Inr data \<and>
      box_metadata env self (path_str env raw) s1 = (Inr curr, s') \<and>
      getitem_str data ''entries'' = Inr entries \<and>
      py_iter entries = Inr items \<and>
      v = VList rs \<and>
      length rs = Suc (length items) \<and>
      (\<forall>k < length rs. \<exists>numbered.
         setitem_str ((curr # items) ! k) ''revision'' (VInt (int k + 1)) = Inr numbered \<and>
         getitem_str numbered ''revision'' = Inr (VInt (int k + 1)) \<and>
         box_revision env numbered = Inr (rs ! k)))"
proof
  assume "box_revisions env self raw s = (Inr v, s')"
  then show "\<exists>path resp s1 data curr entries items rs.
      BoxPath env raw = Inr path \<and>
      make_request env
        \<lparr>meth = ''GET'',
         target = BuildUrl (BASE_URL self) [''files'', path_id path, ''versions''] [],
         headers = [], payload = None, expects = [200], throws = RevisionsError\<rparr> s
        = (Inr resp, s1) \<and>
      json_result resp = Inr data \<and>
      box_metadata env self (path_str env raw) s1 = (Inr curr, s') \<and>
      getitem_str data ''entries'' = Inr entries \<and>
      py_iter entries = Inr items \<and>
      v = VList rs \<and>
      length rs = Suc (length items) \<and>
      (\<forall>k < length rs. \<exists>numbered.
         setitem_str ((curr # items) ! k) ''revision'' (VInt (int k + 1)) = Inr numbered \<and>
         getitem_str numbered ''revision'' = Inr (VInt (int k + 1)) \<and>
         box_revision env numbered = Inr (rs ! k))"
    by (rule box_revisions_returned)
next
  assume "\<exists>path resp s1 data curr entries items rs.
      BoxPath env raw = Inr path \<and>
      make_request env
        \<lparr>meth = ''GET'',
         target = BuildUrl (BASE_URL self) [''files'', path_id path, ''versions''] [],
         headers = [], payload = None, expects = [200], throws = RevisionsError\<rparr> s
        = (Inr resp, s1) \<and>
      json_result resp = Inr data \<and>
      box_metadata env self (path_str env raw) s1 = (Inr curr, s') \<and>
      getitem_str data ''entries'' = Inr entries \<and>
      py_iter entries = Inr items \<and>
      v = VList rs \<and>
      length rs = Suc (length items) \<and>
      (\<forall>k < length rs. \<exists>numbered.
         setitem_str ((curr # items) ! k) ''revision'' (VInt (int k + 1)) = Inr numbered \<and>
         getitem_str numbered ''revision'' = Inr (VInt (int k + 1)) \<and>
         box_revision env numbered = Inr (rs ! k))"
  then show "box_revisions env self raw s = (Inr v, s')"
    by (elim exE conjE) (simp only: box_revisions_produced)
qed

theorem box_revisions_numbering_witness:
  "box_revisions demo_env demo_box ''/42''
     (start [answer 200 (VDict [(''entries'', VList [VDict [(''id'', VStr ''b'')],
                                                     VDict [(''id'', VStr ''a'')]])]),
             answer 200 (VDict [(''id'', VStr ''42'')])]) =
   (Inr (VList [VDict [(''id'', VStr ''42''), (''revision'', VInt 1)],
                VDict [(''id'', VStr ''b''), (''revision'', VInt 2)],
                VDict [(''id'', VStr ''a''), (''revision'', VInt 3)]]),
    \<lparr>world = [],
     issued =
       [(\<lparr>meth = ''GET'', target = BuildUrl ''api'' [''files'', ''42'', ''versions''] [],
          headers = [], payload = None, expects = [200], throws = RevisionsError\<rparr>,
         answer 200 (VDict [(''entries'', VList [VDict [(''id'', VStr ''b'')],
                                                 VDict [(''id'', VStr ''a'')]])])),
        (\<lparr>meth = ''GET'', target = BuildUrl ''api'' [''files'', ''42''] [],
          headers = [], payload = None, expects = [200], throws = MetadataError\<rparr>,
         answer 200 (VDict [(''id'', VStr ''42'')]))]\<rparr>) \<and>
   box_revisions demo_env demo_box ''/42''
     (start [answer 200 (VDict [(''entries'', VList [])]),
             answer 200 (VDict [(''id'', VStr ''42'')])]) =
   (Inr (VList [VDict [(''id'', VStr ''42''), (''revision'', VInt 1)]]),
    \<lparr>world = [],
     issued =
       [(\<lparr>meth = ''GET'', target = BuildUrl ''api'' [''files'', ''42'', ''versions''] [],
          headers = [], payload = None, expects = [200], throws = RevisionsError\<rparr>,
         answer 200 (VDict [(''entries'', VList [])])),
        (\<lparr>meth = ''GET'', target = BuildUrl ''api'' [''files'', ''42''] [],
          headers = [], payload = None, expects = [200], throws = MetadataError\<rparr>,
         answer 200 (VDict [(''id'', VStr ''42'')]))]\<rparr>)"
  (is "?history \<and> ?no_history")
proof
  have run: ?history
    by (simp add: box_revisions_def box_metadata_def box_get_file_meta_def BoxPath_def
        bind_sum_def wb_path_init_def py_split_def is_file_def is_dir_def
        make_request_run demo_env_def demo_box_def scripted_def start_def answer_def
        lift_def ret_def bind_io_def)
  from box_revisions_numbering [THEN iffD1, OF run] run show ?history by simp
next
  show ?no_history
    by (rule box_revisions_numbering [THEN iffD2])
       (simp add: box_metadata_def box_get_file_meta_def BoxPath_def
        bind_sum_def wb_path_init_def py_split_def is_file_def is_dir_def
        make_request_run demo_env_def demo_box_def scripted_def start_def answer_def
        lift_def ret_def bind_io_def)
qed

section \<open>Create or update on upload\<close>

lemma try_except_metadata_run:
  "m s = (r, s1) \<Longrightarrow>
   try_except_metadata m handler body s =
     (case r of
        Inl e \<Rightarrow> if is_metadata_error e then handler s1 else (Inl e, s1)
      | Inr a \<Rightarrow> body a s1)"
  by (simp add: try_except_metadata_def)

lemma box_upload_result_state: "snd (box_upload_result env self created data s) = s"
  by (simp add: box_upload_result_def bind_io_def lift_def ret_def split: sum.splits prod.splits)

lemma box_upload_result_value:
  "fst (box_upload_result env self created data s) = Inr v \<Longrightarrow> \<exists>m. v = VTuple [m, VBool created]"
  by (auto simp: box_upload_result_def bind_io_def lift_def ret_def split: sum.splits prod.splits)

lemma bind_io_result_state:
  "snd (bind_io m (box_upload_result env self created) s) = snd (m s)"
  by (cases "m s") (auto simp: bind_io_def box_upload_result_state split: sum.splits)

lemma bind_io_result_value:
  "fst (bind_io m (box_upload_result env self created) s) = Inr v \<Longrightarrow>
   \<exists>m. v = VTuple [m, VBool created]"
  by (cases "m s") (auto simp: bind_io_def split: sum.splits dest: box_upload_result_value)

lemma bind_io_result_error:
  "fst (m s) = Inl e \<Longrightarrow> fst (bind_io m (box_upload_result env self created) s) = Inl e"
  by (cases "m s") (auto simp: bind_io_def split: sum.splits)

text \<open>The definitions a run on the scripted backend unfolds.\<close>

lemmas demo_run_defs =
  box_upload_def box_upload_create_def box_upload_update_def box_upload_result_def
  box_metadata_def box_get_file_meta_def BoxPath_def os_path_join_def
  try_except_metadata_def bind_sum_def wb_path_init_def py_split_def is_file_def is_dir_def
  make_request_run demo_env_def demo_box_def scripted_def start_def answer_def
  lift_def ret_def raise_def bind_io_def str_nat.simps

text \<open>
  C1. Box upload builds the path from the configured folder and the request path and
  first runs the metadata operation on it; \<open>probe\<close> is what that returns and \<open>s1\<close> the
  state after it. Everything upload does afterwards is decided by the probe alone:
  \<^item> the probe raised MetadataError: the data is encoded with the identifier of the request
    path as parent identifier, one POST goes to \<^verbatim>\<open>files/content\<close> of the upload base (the
    create-upload), and any value returned is a pair whose flag is \<^verbatim>\<open>True\<close>;
  \<^item> the probe raised anything else: upload raises the same and sends nothing;
  \<^item> the probe returned \<open>meta\<close>: a path is built from \<^verbatim>\<open>meta['path']\<close>, one POST goes to
    \<^verbatim>\<open>files/<id>/content\<close> of the upload base with the identifier of that path, not of the
    request path (the update-upload), and any value returned is a pair whose flag is
    \<^verbatim>\<open>False\<close>.
  Where the metadata holds no usable path or the encoder raises, that exception is the
  result and nothing is sent after the probe.
\<close>

theorem box_upload_disambiguation:
  assumes path: "BoxPath env (os_path_join (folder self) raw) = Inr path"
      and probe: "box_metadata env self (path_str env (orig_path path)) s = (probe, s1)"
      and run: "box_upload env self strm raw s = (res, s')"
  shows "(case probe of
            Inl e \<Rightarrow>
              if is_metadata_error e
              then (\<forall>v. res = Inr v \<longrightarrow> (\<exists>m. v = VTuple [m, VBool True])) \<and>
                   (case make_upload_data env strm (path_id path) (path_name env (orig_path path)) of
                      Inl e' \<Rightarrow> res = Inl e' \<and> s' = s1
                    | Inr (body, boundary, nbytes) \<Rightarrow>
                        (\<exists>resp. issued s' = issued s1 @
                           [(\<lparr>meth = ''POST'',
                              target = BuildUrl (BASE_UPLOAD_URL self) [''files'', ''content''] [],
                              headers = [(''Content-Length'', str_nat nbytes),
                                (''Content-Type'', ''multipart/form-data; boundary='' @ boundary)],
                              payload = Some body, expects = [200, 201],
                              throws = UploadError\<rparr>, resp)]))
              else res = Inl e \<and> s' = s1
          | Inr meta \<Rightarrow>
              (\<forall>v. res = Inr v \<longrightarrow> (\<exists>m. v = VTuple [m, VBool False])) \<and>
              (case bind_sum (getitem_str meta ''path'') (BoxPath_of_value env) of
                 Inl e' \<Rightarrow> res = Inl e' \<and> s' = s1
               | Inr meta_path \<Rightarrow>
                  (case make_upload_data env strm (path_id path) (path_name env (orig_path path)) of
                     Inl e' \<Rightarrow> res = Inl e' \<and> s' = s1
                   | Inr (body, boundary, nbytes) \<Rightarrow>
                       (\<exists>resp. issued s' = issued s1 @
                          [(\<lparr>meth = ''POST'',
                             target = BuildUrl (BASE_UPLOAD_URL self)
                                        [''files'', path_id meta_path, ''content''] [],
                             headers = [(''Content-Length'', str_nat nbytes),
                               (''Content-Type'', ''multipart/form-data; boundary='' @ boundary)],
                             payload = Some body, expects = [200, 201],
                             throws = UploadError\<rparr>, resp)]))))"
proof -
  let ?create = "box_upload_create env self strm path"
  let ?update = "box_upload_update env self strm path"
  have unfolded: "box_upload env self strm raw s =
      (case probe of
         Inl e \<Rightarrow> if is_metadata_error e
                  then bind_io ?create (box_upload_result env self True) s1
                  else (Inl e, s1)
       | Inr meta \<Rightarrow> bind_io (?update meta) (box_upload_result env self False) s1)"
    by (simp add: box_upload_def path
        try_except_metadata_run [of "box_metadata env self (path_str env (orig_path path))" s, OF probe])
  show ?thesis
  proof (cases probe)
    case (Inl e)
    show ?thesis
    proof (cases "is_metadata_error e")
      case False
      with Inl unfolded run show ?thesis by simp
    next
      case True
      with Inl unfolded run have r: "bind_io ?create (box_upload_result env self True) s1 = (res, s')"
        by simp
      have val: "\<forall>v. res = Inr v \<longrightarrow> (\<exists>m. v = VTuple [m, VBool True])"
        using bind_io_result_value [of ?create env self True s1] r by simp
      have st: "s' = snd (?create s1)"
        using bind_io_result_state [of ?create env self True s1] r by simp
      have enc: "(case make_upload_data env strm (path_id path) (path_name env (orig_path path)) of
                      Inl e' \<Rightarrow> res = Inl e' \<and> s' = s1
                    | Inr (body, boundary, nbytes) \<Rightarrow>
                        (\<exists>resp. issued s' = issued s1 @
                           [(\<lparr>meth = ''POST'',
                              target = BuildUrl (BASE_UPLOAD_URL self) [''files'', ''content''] [],
                              headers = [(''Content-Length'', str_nat nbytes),
                                (''Content-Type'', ''multipart/form-data; boundary='' @ boundary)],
                              payload = Some body, expects = [200, 201],
                              throws = UploadError\<rparr>, resp)]))"
      proof (cases "make_upload_data env strm (path_id path) (path_name env (orig_path path))")
        case (Inl e')
        then have "?create s1 = (Inl e', s1)"
          by (simp add: box_upload_create_def)
        with r st bind_io_result_error [of ?create s1 e' env self True] Inl show ?thesis
          by simp
      next
        case (Inr t)
        obtain body boundary nbytes where t: "t = (body, boundary, nbytes)"
          by (cases t) auto
        with Inr st show ?thesis
          by (simp add: box_upload_create_def bind_io_make_request lift_def)
      qed
      from Inl True val enc show ?thesis by simp
    qed
  next
    case (Inr meta)
    with unfolded run have r: "bind_io (?update meta) (box_upload_result env self False) s1 = (res, s')"
      by simp
    have val: "\<forall>v. res = Inr v \<longrightarrow> (\<exists>m. v = VTuple [m, VBool False])"
      using bind_io_result_value [of "?update meta" env self False s1] r by simp
    have st: "s' = snd (?update meta s1)"
      using bind_io_result_state [of "?update meta" env self False s1] r by simp
    have err: "fst (?update meta s1) = Inl e' \<Longrightarrow> res = Inl e'" for e'
      using bind_io_result_error [of "?update meta" s1 e' env self False] r by simp
    have upd: "(case bind_sum (getitem_str meta ''path'') (BoxPath_of_value env) of
                 Inl e' \<Rightarrow> res = Inl e' \<and> s' = s1
               | Inr meta_path \<Rightarrow>
                  (case make_upload_data env strm (path_id path) (path_name env (orig_path path)) of
                     Inl e' \<Rightarrow> res = Inl e' \<and> s' = s1
                   | Inr (body, boundary, nbytes) \<Rightarrow>
                       (\<exists>resp. issued s' = issued s1 @
                          [(\<lparr>meth = ''POST'',
                             target = BuildUrl (BASE_UPLOAD_URL self)
                                        [''files'', path_id meta_path, ''content''] [],
                             headers = [(''Content-Length'', str_nat nbytes),
                               (''Content-Type'', ''multipart/form-data; boundary='' @ boundary)],
                             payload = Some body, expects = [200, 201],
                             throws = UploadError\<rparr>, resp)])))"
    proof (cases "getitem_str meta ''path''")
      case (Inl e')
      then have "?update meta s1 = (Inl e', s1)"
        by (simp add: box_upload_update_def)
      with st err [of e'] Inl show ?thesis by (simp add: bind_sum_def)
    next
      case mp: (Inr mp)
      show ?thesis
      proof (cases "BoxPath_of_value env mp")
        case (Inl e')
        with mp have "?update meta s1 = (Inl e', s1)"
          by (simp add: box_upload_update_def)
        with st err [of e'] Inl mp show ?thesis by (simp add: bind_sum_def)
      next
        case bp: (Inr meta_path)
        show ?thesis
        proof (cases "make_upload_data env strm (path_id path) (path_name env (orig_path path))")
          case (Inl e')
          with mp bp have "?update meta s1 = (Inl e', s1)"
            by (simp add: box_upload_update_def)
          with st err [of e'] Inl mp bp show ?thesis by (simp add: bind_sum_def)
        next
          case (Inr t)
          obtain body boundary nbytes where t: "t = (body, boundary, nbytes)"
            by (cases t) auto
          with Inr mp bp st show ?thesis
            by (simp add: box_upload_update_def bind_io_make_request lift_def bind_sum_def)
        qed
      qed
    qed
    from Inr val upd show ?thesis by simp
  qed
qed

theorem box_upload_disambiguation_witness:
  "box_upload demo_env demo_box \<lparr>stream_size = Some 5, stream_data = ''hello''\<rparr> ''/42''
     (start [answer 404 VNone,
             answer 201 (VDict [(''entries'', VList [VDict [(''id'', VStr ''77'')]])])]) =
   (Inr (VTuple [VDict [(''id'', VStr ''77'')], VBool True]),
    \<lparr>world = [],
     issued =
       [(\<lparr>meth = ''GET'', target = BuildUrl ''api'' [''files'', ''42''] [],
          headers = [], payload = None, expects = [200], throws = MetadataError\<rparr>,
         answer 404 VNone),
        (\<lparr>meth = ''POST'', target = BuildUrl ''up'' [''files'', ''content''] [],
          headers = [(''Content-Length'', ''5''),
                     (''Content-Type'', ''multipart/form-data; boundary=b'')],
          payload = Some \<lparr>stream_size = Some 5, stream_data = ''hello''\<rparr>,
          expects = [200, 201], throws = UploadError\<rparr>,
         answer 201 (VDict [(''entries'', VList [VDict [(''id'', VStr ''77'')]])]))]\<rparr>) \<and>
   box_upload demo_env demo_box \<lparr>stream_size = Some 5, stream_data = ''hello''\<rparr> ''/42''
     (start [answer 200 (VDict [(''id'', VStr ''99''), (''path'', VStr ''/99'')]),
             answer 200 (VDict [(''entries'', VList [VDict [(''id'', VStr ''99'')]])])]) =
   (Inr (VTuple [VDict [(''id'', VStr ''99'')], VBool False]),
    \<lparr>world = [],
     issued =
       [(\<lparr>meth = ''GET'', target = BuildUrl ''api'' [''files'', ''42''] [],
          headers = [], payload = None, expects = [200], throws = MetadataError\<rparr>,
         answer 200 (VDict [(''id'', VStr ''99''), (''path'', VStr ''/99'')])),
        (\<lparr>meth = ''POST'', target = BuildUrl ''up'' [''files'', ''99'', ''content''] [],
          headers = [(''Content-Length'', ''5''),
                     (''Content-Type'', ''multipart/form-data; boundary=b'')],
          payload = Some \<lparr>stream_size = Some 5, stream_data = ''hello''\<rparr>,
          expects = [200, 201], throws = UploadError\<rparr>,
         answer 200 (VDict [(''entries'', VList [VDict [(''id'', VStr ''99'')]])]))]\<rparr>)"
  (is "?create = ?created \<and> ?update = ?updated")
proof -
  have p: "BoxPath demo_env (os_path_join (folder demo_box) ''/42'') =
             Inr \<lparr>orig_path = ''/42'', path_id = ''42''\<rparr>"
    by (simp add: demo_run_defs)
  have probe1: "box_metadata demo_env demo_box
        (path_str demo_env (orig_path \<lparr>orig_path = ''/42'', path_id = ''42''\<rparr>))
        (start [answer 404 VNone,
                answer 201 (VDict [(''entries'', VList [VDict [(''id'', VStr ''77'')]])])]) =
      (Inl (WBError MetadataError (Some 404) ''xml''),
       \<lparr>world = [answer 201 (VDict [(''entries'', VList [VDict [(''id'', VStr ''77'')]])])],
        issued = [(\<lparr>meth = ''GET'', target = BuildUrl ''api'' [''files'', ''42''] [],
          headers = [], payload = None, expects = [200], throws = MetadataError\<rparr>,
         answer 404 VNone)]\<rparr>)"
    by (simp add: demo_run_defs)
  have probe2: "box_metadata demo_env demo_box
        (path_str demo_env (orig_path \<lparr>orig_path = ''/42'', path_id = ''42''\<rparr>))
        (start [answer 200 (VDict [(''id'', VStr ''99''), (''path'', VStr ''/99'')]),
             answer 200 (VDict [(''entries'', VList [VDict [(''id'', VStr ''99'')]])])]) =
      (Inr (VDict [(''id'', VStr ''99''), (''path'', VStr ''/99'')]),
       \<lparr>world = [answer 200 (VDict [(''entries'', VList [VDict [(''id'', VStr ''99'')]])])],
        issued = [(\<lparr>meth = ''GET'', target = BuildUrl ''api'' [''files'', ''42''] [],
          headers = [], payload = None, expects = [200], throws = MetadataError\<rparr>,
         answer 200 (VDict [(''id'', VStr ''99''), (''path'', VStr ''/99'')]))]\<rparr>)"
    by (simp add: demo_run_defs)
  have run1: "?create = ?created"
    by (simp add: demo_run_defs)
  have run2: "?update = ?updated"
    by (simp add: demo_run_defs)
  from box_upload_disambiguation [OF p probe1 run1] box_upload_disambiguation [OF p probe2 run2]
    run1 run2
  show ?thesis by simp
qed

section \<open>Propagation of rejected statuses\<close>

lemma propagatesI:
  assumes "\<And>s. \<exists>new.
        issued (snd (m s)) = issued s @ new \<and>
        (\<forall>x \<in> set new. throws (fst x) \<in> kinds) \<and>
        (\<forall>x \<in> set (butlast new). rejected x \<longrightarrow> throws (fst x) \<in> caught) \<and>
        (new \<noteq> [] \<longrightarrow> rejected (last new) \<longrightarrow> throws (fst (last new)) \<notin> caught \<longrightarrow>
           fst (m s) = Inl (declared_failure (last new)))"
  shows "propagates caught kinds m"
  using assms unfolding propagates_def by blast

lemma propagatesD:
  assumes "propagates caught kinds m"
  shows "\<exists>new.
        issued (snd (m s)) = issued s @ new \<and>
        (\<forall>x \<in> set new. throws (fst x) \<in> kinds) \<and>
        (\<forall>x \<in> set (butlast new). rejected x \<longrightarrow> throws (fst x) \<in> caught) \<and>
        (new \<noteq> [] \<longrightarrow> rejected (last new) \<longrightarrow> throws (fst (last new)) \<notin> caught \<longrightarrow>
           fst (m s) = Inl (declared_failure (last new)))"
  using assms unfolding propagates_def by blast

lemma propagates_silent:
  assumes "\<And>s. snd (m s) = s"
  shows "propagates caught kinds m"
  by (rule propagatesI, rule exI [of _ "[]"]) (simp add: assms)

lemma propagates_lift [intro!]: "propagates caught kinds (lift r)"
  by (rule propagates_silent) (simp add: lift_def)

lemma propagates_ret [intro!]: "propagates caught kinds (ret a)"
  by (rule propagates_silent) (simp add: ret_def)

lemma propagates_raise [intro!]: "propagates caught kinds (raise e)"
  by (rule propagates_silent) (simp add: raise_def)

lemma propagates_make_request:
  assumes "throws c \<in> kinds"
  shows "propagates caught kinds (make_request env c)"
proof (rule propagatesI)
  fix s :: "'a sys"
  show "\<exists>new.
        issued (snd (make_request env c s)) = issued s @ new \<and>
        (\<forall>x \<in> set new. throws (fst x) \<in> kinds) \<and>
        (\<forall>x \<in> set (butlast new). rejected x \<longrightarrow> throws (fst x) \<in> caught) \<and>
        (new \<noteq> [] \<longrightarrow> rejected (last new) \<longrightarrow> throws (fst (last new)) \<notin> caught \<longrightarrow>
           fst (make_request env c s) = Inl (declared_failure (last new)))"
    by (rule exI [of _ "[(c, fst (transport env (world s) c))]"])
       (simp add: make_request_run assms rejected_def declared_failure_def)
qed

lemma propagates_weaken:
  assumes "propagates {} kinds m"
  shows "propagates caught kinds m"
proof (rule propagatesI)
  fix s
  from propagatesD [OF assms, of s] obtain new where
    "issued (snd (m s)) = issued s @ new"
    "\<forall>x \<in> set new. throws (fst x) \<in> kinds"
    "\<forall>x \<in> set (butlast new). rejected x \<longrightarrow> throws (fst x) \<in> {}"
    "new \<noteq> [] \<longrightarrow> rejected (last new) \<longrightarrow> throws (fst (last new)) \<notin> {} \<longrightarrow>
       fst (m s) = Inl (declared_failure (last new))"
    by blast
  then show "\<exists>new.
        issued (snd (m s)) = issued s @ new \<and>
        (\<forall>x \<in> set new. throws (fst x) \<in> kinds) \<and>
        (\<forall>x \<in> set (butlast new). rejected x \<longrightarrow> throws (fst x) \<in> caught) \<and>
        (new \<noteq> [] \<longrightarrow> rejected (last new) \<longrightarrow> throws (fst (last new)) \<notin> caught \<longrightarrow>
           fst (m s) = Inl (declared_failure (last new)))"
    by (intro exI [of _ new]) auto
qed

lemma rejected_before_return:
  assumes "new \<noteq> [] \<longrightarrow> rejected (last new) \<longrightarrow> throws (fst (last new)) \<notin> caught \<longrightarrow>
             r = Inl (declared_failure (last new))"
      and "\<forall>x \<in> set (butlast new). rejected x \<longrightarrow> throws (fst x) \<in> caught"
      and "r = Inr a"
      and "x \<in> set new" and "rejected x"
  shows "throws (fst x) \<in> caught"
proof (cases "x \<in> set (butlast new)")
  case True
  with assms(2,5) show ?thesis by blast
next
  case False
  from assms(4) have ne: "new \<noteq> []" by auto
  then have "new = butlast new @ [last new]" by simp
  with assms(4) False have "x = last new"
    by (metis Un_iff empty_iff empty_set set_ConsD set_append)
  with assms(1,3,5) ne show ?thesis by auto
qed

lemma propagates_bind:
  assumes m: "propagates caught kinds m"
      and f: "\<And>a. propagates caught kinds (f a)"
  shows "propagates caught kinds (bind_io m f)"
proof (rule propagatesI)
  fix s
  obtain r1 s1 where ms: "m s = (r1, s1)" by (cases "m s")
  from propagatesD [OF m, of s] ms obtain new1 where n1:
    "issued s1 = issued s @ new1"
    "\<forall>x \<in> set new1. throws (fst x) \<in> kinds"
    "\<forall>x \<in> set (butlast new1). rejected x \<longrightarrow> throws (fst x) \<in> caught"
    "new1 \<noteq> [] \<longrightarrow> rejected (last new1) \<longrightarrow> throws (fst (last new1)) \<notin> caught \<longrightarrow>
       r1 = Inl (declared_failure (last new1))"
    by auto
  show "\<exists>new.
        issued (snd (bind_io m f s)) = issued s @ new \<and>
        (\<forall>x \<in> set new. throws (fst x) \<in> kinds) \<and>
        (\<forall>x \<in> set (butlast new). rejected x \<longrightarrow> throws (fst x) \<in> caught) \<and>
        (new \<noteq> [] \<longrightarrow> rejected (last new) \<longrightarrow> throws (fst (last new)) \<notin> caught \<longrightarrow>
           fst (bind_io m f s) = Inl (declared_failure (last new)))"
  proof (cases r1)
    case (Inl e)
    with ms have "bind_io m f s = (Inl e, s1)" by (simp add: bind_io_def)
    with n1 Inl show ?thesis by (intro exI [of _ new1]) simp
  next
    case (Inr a)
    with ms have b: "bind_io m f s = f a s1" by (simp add: bind_io_def)
    from propagatesD [OF f, of a s1] obtain new2 where n2:
      "issued (snd (f a s1)) = issued s1 @ new2"
      "\<forall>x \<in> set new2. throws (fst x) \<in> kinds"
      "\<forall>x \<in> set (butlast new2). rejected x \<longrightarrow> throws (fst x) \<in> caught"
      "new2 \<noteq> [] \<longrightarrow> rejected (last new2) \<longrightarrow> throws (fst (last new2)) \<notin> caught \<longrightarrow>
         fst (f a s1) = Inl (declared_failure (last new2))"
      by blast
    have all1: "\<forall>x \<in> set new1. rejected x \<longrightarrow> throws (fst x) \<in> caught"
      using rejected_before_return [OF n1(4) n1(3) Inr] by blast
    show ?thesis
    proof (cases "new2 = []")
      case True
      have "new1 \<noteq> [] \<longrightarrow> rejected (last new1) \<longrightarrow> throws (fst (last new1)) \<in> caught"
        using all1 by simp
      with True n1 n2 b show ?thesis
        by (intro exI [of _ new1]) (auto dest: in_set_butlastD)
    next
      case False
      have bl: "butlast (new1 @ new2) = new1 @ butlast new2"
        using False by (simp add: butlast_append)
      have la: "last (new1 @ new2) = last new2"
        using False by simp
      show ?thesis
        apply (rule exI [of _ "new1 @ new2"])
        using n1(1,2) n2 b all1 False
        by (auto simp: bl la)
    qed
  qed
qed

lemma propagates_try_except:
  assumes m: "propagates {} kinds m"
      and h: "propagates caught kinds handler"
      and b: "\<And>a. propagates caught kinds (body a)"
      and c: "MetadataError \<in> caught"
  shows "propagates caught kinds (try_except_metadata m handler body)"
proof (rule propagatesI)
  fix s
  obtain r1 s1 where ms: "m s = (r1, s1)" by (cases "m s")
  from propagatesD [OF m, of s] ms obtain new1 where n1:
    "issued s1 = issued s @ new1"
    "\<forall>x \<in> set new1. throws (fst x) \<in> kinds"
    "\<forall>x \<in> set (butlast new1). \<not> rejected x"
    "new1 \<noteq> [] \<longrightarrow> rejected (last new1) \<longrightarrow> r1 = Inl (declared_failure (last new1))"
    by auto
  let ?goal = "\<lambda>res. \<exists>new.
        issued (snd res) = issued s @ new \<and>
        (\<forall>x \<in> set new. throws (fst x) \<in> kinds) \<and>
        (\<forall>x \<in> set (butlast new). rejected x \<longrightarrow> throws (fst x) \<in> caught) \<and>
        (new \<noteq> [] \<longrightarrow> rejected (last new) \<longrightarrow> throws (fst (last new)) \<notin> caught \<longrightarrow>
           fst res = Inl (declared_failure (last new)))"
  have then_run: "?goal (k s1)"
    if k: "propagates caught kinds k"
      and all1: "\<forall>x \<in> set new1. rejected x \<longrightarrow> throws (fst x) \<in> caught" for k :: "('a, 'c) io"
  proof -
    from propagatesD [OF k, of s1] obtain new2 where n2:
      "issued (snd (k s1)) = issued s1 @ new2"
      "\<forall>x \<in> set new2. throws (fst x) \<in> kinds"
      "\<forall>x \<in> set (butlast new2). rejected x \<longrightarrow> throws (fst x) \<in> caught"
      "new2 \<noteq> [] \<longrightarrow> rejected (last new2) \<longrightarrow> throws (fst (last new2)) \<notin> caught \<longrightarrow>
         fst (k s1) = Inl (declared_failure (last new2))"
      by blast
    show ?thesis
    proof (cases "new2 = []")
      case True
      have "new1 \<noteq> [] \<longrightarrow> rejected (last new1) \<longrightarrow> throws (fst (last new1)) \<in> caught"
        using all1 by simp
      with True n1 n2 all1 show ?thesis
        by (intro exI [of _ new1]) (auto dest: in_set_butlastD)
    next
      case False
      have bl: "butlast (new1 @ new2) = new1 @ butlast new2"
        using False by (simp add: butlast_append)
      have la: "last (new1 @ new2) = last new2"
        using False by simp
      show ?thesis
        apply (rule exI [of _ "new1 @ new2"])
        using n1(1,2) n2 all1 False
        by (auto simp: bl la)
    qed
  qed
  show "?goal (try_except_metadata m handler body s)"
  proof (cases r1)
    case (Inr a)
    have "\<forall>x \<in> set new1. rejected x \<longrightarrow> throws (fst x) \<in> caught"
      using rejected_before_return [of new1 "{}" r1 a] n1(3,4) Inr by blast
    from then_run [OF b [of a] this] ms Inr show ?thesis
      by (simp add: try_except_metadata_def)
  next
    case (Inl e)
    show ?thesis
    proof (cases "is_metadata_error e")
      case False
      with ms Inl have "try_except_metadata m handler body s = (Inl e, s1)"
        by (simp add: try_except_metadata_def)
      with n1 Inl show ?thesis by (intro exI [of _ new1]) simp
    next
      case True
      have "\<forall>x \<in> set new1. rejected x \<longrightarrow> throws (fst x) \<in> caught"
      proof (intro ballI impI)
        fix x assume x: "x \<in> set new1" "rejected x"
        then have ne: "new1 \<noteq> []" by auto
        then have "new1 = butlast new1 @ [last new1]" by simp
        with x n1(3) have "x = last new1"
          by (metis Un_iff empty_iff empty_set set_ConsD set_append)
        with n1(4) ne x(2) Inl have "e = declared_failure x" by simp
        with True c show "throws (fst x) \<in> caught"
          by (simp add: declared_failure_def)
      qed
      from then_run [OF h this] ms Inl True show ?thesis
        by (simp add: try_except_metadata_def)
    qed
  qed
qed

lemma propagates_if:
  "propagates caught kinds m1 \<Longrightarrow> propagates caught kinds m2 \<Longrightarrow>
   propagates caught kinds (if b then m1 else m2)"
  by simp

lemma propagates_triple:
  "(\<And>a b c. propagates caught kinds (f a b c)) \<Longrightarrow>
   propagates caught kinds (case t of (a, b, c) \<Rightarrow> f a b c)"
  by (cases t) simp

lemmas propagates_intros =
  propagates_bind propagates_make_request propagates_if propagates_triple
  propagates_lift propagates_ret propagates_raise

lemma propagates_box_metadata:
  "MetadataError \<in> kinds \<Longrightarrow> propagates caught kinds (box_metadata env self raw)"
  unfolding box_metadata_def box_get_file_meta_def box_get_folder_meta_def
  by (intro propagates_intros) simp_all

lemma propagates_box_upload_create:
  "UploadError \<in> kinds \<Longrightarrow> propagates caught kinds (box_upload_create env self strm path)"
  unfolding box_upload_create_def
  by (intro propagates_intros) simp_all

lemma propagates_box_upload_update:
  "UploadError \<in> kinds \<Longrightarrow> propagates caught kinds (box_upload_update env self strm path meta)"
  unfolding box_upload_update_def
  by (intro propagates_intros) simp_all

lemma propagates_box_upload_result:
  "propagates caught kinds (box_upload_result env self created data)"
  unfolding box_upload_result_def
  by (intro propagates_intros)

lemma bind_io_rejected:
  "answered_outside env c s \<Longrightarrow> bind_io (make_request env c) f s = fails_with env c s"
  by (simp add: bind_io_make_request answered_outside_def fails_with_def)

lemma make_request_rejected:
  "answered_outside env c s \<Longrightarrow> make_request env c s = fails_with env c s"
  by (simp add: make_request_run answered_outside_def fails_with_def)

lemma orig_path_BoxPath: "BoxPath env raw = Inr path \<Longrightarrow> orig_path path = raw"
  by (auto simp: BoxPath_def bind_sum_Inr_iff wb_path_init_def split: if_splits)

text \<open>
  C4, as amended. Every request of every operation declares a success set and an error
  kind, and a status outside the set ends the operation at once with the error that
  request declared, carrying the status, after exactly that one exchange: the request is
  sent once and nothing follows it. Request by request:
  \<^item> the operation's own request declares the operation's own kind: DownloadError for
    the two downloads, MetadataError for the two metadata operations, UploadError for the
    create and update POST of the Box upload and for the WebDAV PUT, DeleteError for the
    two DELETE requests, RevisionsError for the versions request;
  \<^item> the metadata probe inside the Box delete and revisions is the metadata operation,
    which declares MetadataError: when it raises, delete and revisions raise the same
    error in the same state, and nothing is sent after it;
  \<^item> the metadata probe inside the Box upload is caught when it raises MetadataError:
    upload continues from the state after the probe with the create-upload and the flag
    \<^verbatim>\<open>True\<close>.

  In every run, moreover, no exchange with a rejected status is followed by another one,
  except the caught probe of the Box upload.
\<close>

theorem status_propagation:
  "propagates {} {DownloadError} (box_download env box raw revision) \<and>
   propagates {} {MetadataError} (box_metadata env box raw) \<and>
   propagates {MetadataError} {MetadataError, UploadError} (box_upload env box strm raw) \<and>
   propagates {} {MetadataError, DeleteError} (box_delete env box raw) \<and>
   propagates {} {RevisionsError, MetadataError} (box_revisions env box raw) \<and>
   propagates {} {MetadataError} (oc_metadata env oc raw) \<and>
   propagates {} {DownloadError} (oc_download env oc raw) \<and>
   propagates {} {UploadError} (oc_upload env oc strm raw) \<and>
   propagates {} {DeleteError} (oc_delete env oc raw) \<and>
   (BoxPath env raw = Inr path \<longrightarrow>
      (let c = \<lparr>meth = ''GET'',
                target = BuildUrl (BASE_URL box) [''files'', path_id path, ''content'']
                  (if truthy_str revision \<and> revision \<noteq> Some (path_id path)
                   then [(''version'', the revision)] else []),
                headers = [], payload = None, expects = [200], throws = DownloadError\<rparr>
       in answered_outside env c s \<longrightarrow>
          box_download env box raw revision s = fails_with env c s)) \<and>
   (BoxPath env raw = Inr path \<longrightarrow>
      (let c = \<lparr>meth = ''GET'',
                target = (if is_file raw then BuildUrl (BASE_URL box) [''files'', path_id path] []
                          else BuildUrl (BASE_URL box) [''folders'', folder box, ''items''] []),
                headers = [], payload = None, expects = [200], throws = MetadataError\<rparr>
       in answered_outside env c s \<longrightarrow>
          box_metadata env box raw s = fails_with env c s)) \<and>
   (BoxPath env raw = Inr path \<longrightarrow>
      box_metadata env box (path_str env raw) s = (Inl e, s1) \<longrightarrow>
      box_delete env box raw s = (Inl e, s1)) \<and>
   (BoxPath env raw = Inr path \<longrightarrow>
      box_metadata env box (path_str env raw) s = (Inr meta, s1) \<longrightarrow>
      (let c = \<lparr>meth = ''DELETE'',
                target = BuildUrl (BASE_URL box) [''files'', path_id path] [],
                headers = [], payload = None, expects = [204], throws = DeleteError\<rparr>
       in answered_outside env c s1 \<longrightarrow>
          box_delete env box raw s = fails_with env c s1)) \<and>
   (BoxPath env raw = Inr path \<longrightarrow>
      (let c = \<lparr>meth = ''GET'',
                target = BuildUrl (BASE_URL box) [''files'', path_id path, ''versions''] [],
                headers = [], payload = None, expects = [200], throws = RevisionsError\<rparr>
       in (answered_outside env c s \<longrightarrow>
             box_revisions env box raw s = fails_with env c s) \<and>
          (make_request env c s = (Inr resp, s1) \<longrightarrow>
           json_result resp = Inr data \<longrightarrow>
           box_metadata env box (path_str env raw) s1 = (Inl e, s2) \<longrightarrow>
           box_revisions env box raw s = (Inl e, s2)))) \<and>
   (BoxPath env (os_path_join (folder box) raw) = Inr upath \<longrightarrow>
      box_metadata env box (path_str env (orig_path upath)) s = (Inl e, s1) \<longrightarrow>
      is_metadata_error e \<longrightarrow>
      box_upload env box strm raw s =
        bind_io (box_upload_create env box strm upath) (box_upload_result env box True) s1) \<and>
   (BoxPath env (os_path_join (folder box) raw) = Inr upath \<longrightarrow>
      box_metadata env box (path_str env (orig_path upath)) s = (Inl e, s1) \<longrightarrow>
      is_metadata_error e \<longrightarrow>
      make_upload_data env strm (path_id upath) (path_name env (orig_path upath))
        = Inr (body, boundary, nbytes) \<longrightarrow>
      (let c = \<lparr>meth = ''POST'',
                target = BuildUrl (BASE_UPLOAD_URL box) [''files'', ''content''] [],
                headers = [(''Content-Length'', str_nat nbytes),
                           (''Content-Type'', ''multipart/form-data; boundary='' @ boundary)],
                payload = Some body, expects = [200, 201], throws = UploadError\<rparr>
       in answered_outside env c s1 \<longrightarrow>
          box_upload env box strm raw s = fails_with env c s1)) \<and>
   (BoxPath env (os_path_join (folder box) raw) = Inr upath \<longrightarrow>
      box_metadata env box (path_str env (orig_path upath)) s = (Inr meta, s1) \<longrightarrow>
      getitem_str meta ''path'' = Inr mp \<longrightarrow>
      BoxPath_of_value env mp = Inr meta_path \<longrightarrow>
      make_upload_data env strm (path_id upath) (path_name env (orig_path upath))
        = Inr (body, boundary, nbytes) \<longrightarrow>
      (let c = \<lparr>meth = ''POST'',
                target = BuildUrl (BASE_UPLOAD_URL box)
                           [''files'', path_id meta_path, ''content''] [],
                headers = [(''Content-Length'', str_nat nbytes),
                           (''Content-Type'', ''multipart/form-data; boundary='' @ boundary)],
                payload = Some body, expects = [200, 201], throws = UploadError\<rparr>
       in answered_outside env c s1 \<longrightarrow>
          box_upload env box strm raw s = fails_with env c s1)) \<and>
   (path_ok env False True raw \<longrightarrow> \<not> is_dir raw \<longrightarrow>
      (let c = \<lparr>meth = ''PROPFIND'',
                target = PlainUrl (webdav_url oc @ path_path env False True raw),
                headers = [], payload = None, expects = [207], throws = MetadataError\<rparr>
       in answered_outside env c s \<longrightarrow>
          oc_metadata env oc raw s = fails_with env c s)) \<and>
   (path_ok env False True raw \<longrightarrow> is_file raw \<longrightarrow>
      (let c = \<lparr>meth = ''GET'',
                target = PlainUrl (webdav_url oc @ path_path env False True raw),
                headers = [], payload = None, expects = [200], throws = DownloadError\<rparr>
       in answered_outside env c s \<longrightarrow>
          oc_download env oc raw s = fails_with env c s)) \<and>
   (let c = \<lparr>meth = ''PUT'', target = PlainUrl (webdav_url oc @ raw),
             headers = [(''Content-Length'', str_size (stream_size strm))],
             payload = Some strm, expects = [201], throws = UploadError\<rparr>
    in answered_outside env c s \<longrightarrow>
       oc_upload env oc strm raw s = fails_with env c s) \<and>
   (let c = \<lparr>meth = ''DELETE'', target = PlainUrl (webdav_url oc @ raw),
             headers = [], payload = None, expects = [204], throws = DeleteError\<rparr>
    in answered_outside env c s \<longrightarrow>
       oc_delete env oc raw s = fails_with env c s)"
proof -
  have shape:
   "propagates {} {DownloadError} (box_download env box raw revision) \<and>
    propagates {} {MetadataError} (box_metadata env box raw) \<and>
    propagates {MetadataError} {MetadataError, UploadError} (box_upload env box strm raw) \<and>
    propagates {} {MetadataError, DeleteError} (box_delete env box raw) \<and>
    propagates {} {RevisionsError, MetadataError} (box_revisions env box raw) \<and>
    propagates {} {MetadataError} (oc_metadata env oc raw) \<and>
    propagates {} {DownloadError} (oc_download env oc raw) \<and>
    propagates {} {UploadError} (oc_upload env oc strm raw) \<and>
    propagates {} {DeleteError} (oc_delete env oc raw)"
  proof (intro conjI)
    show "propagates {} {DownloadError} (box_download env box raw revision)"
      unfolding box_download_def by (intro propagates_intros) simp_all
    show "propagates {} {MetadataError} (box_metadata env box raw)"
      by (rule propagates_box_metadata) simp
    show "propagates {MetadataError} {MetadataError, UploadError} (box_upload env box strm raw)"
      unfolding box_upload_def
      by (intro propagates_intros propagates_try_except propagates_box_metadata
            propagates_box_upload_create propagates_box_upload_update
            propagates_box_upload_result) simp_all
    show "propagates {} {MetadataError, DeleteError} (box_delete env box raw)"
      unfolding box_delete_def
      by (intro propagates_intros propagates_box_metadata) simp_all
    show "propagates {} {RevisionsError, MetadataError} (box_revisions env box raw)"
      unfolding box_revisions_def
      by (intro propagates_intros propagates_box_metadata) simp_all
    show "propagates {} {MetadataError} (oc_metadata env oc raw)"
      unfolding oc_metadata_def oc_metadata_folder_def oc_metadata_file_def
      by (intro propagates_intros) simp_all
    show "propagates {} {DownloadError} (oc_download env oc raw)"
      unfolding oc_download_def by (intro propagates_intros) simp_all
    show "propagates {} {UploadError} (oc_upload env oc strm raw)"
      unfolding oc_upload_def by (intro propagates_intros) simp_all
    show "propagates {} {DeleteError} (oc_delete env oc raw)"
      unfolding oc_delete_def by (intro propagates_intros) simp_all
  qed
  have download: "box_download env box raw revision s = fails_with env c s"
    if "BoxPath env raw = Inr path"
      and "c = \<lparr>meth = ''GET'',
                target = BuildUrl (BASE_URL box) [''files'', path_id path, ''content'']
                  (if truthy_str revision \<and> revision \<noteq> Some (path_id path)
                   then [(''version'', the revision)] else []),
                headers = [], payload = None, expects = [200], throws = DownloadError\<rparr>"
      and "answered_outside env c s" for c
    using that
    by (cases "truthy_str revision \<and> revision \<noteq> Some (path_id path)")
       (auto simp: box_download_def make_request_rejected)
  have metadata: "box_metadata env box raw s = fails_with env c s"
    if "BoxPath env raw = Inr path"
      and "c = \<lparr>meth = ''GET'',
                target = (if is_file raw then BuildUrl (BASE_URL box) [''files'', path_id path] []
                          else BuildUrl (BASE_URL box) [''folders'', folder box, ''items''] []),
                headers = [], payload = None, expects = [200], throws = MetadataError\<rparr>"
      and "answered_outside env c s" for c
    using that orig_path_BoxPath [OF that(1)]
    by (cases "is_file raw")
       (auto simp: box_metadata_def box_get_file_meta_def box_get_folder_meta_def
          bind_io_rejected)
  have delete_probe: "box_delete env box raw s = (Inl e, s1)"
    if "BoxPath env raw = Inr path"
      and "box_metadata env box (path_str env raw) s = (Inl e, s1)"
    using that orig_path_BoxPath [OF that(1)]
    by (simp add: box_delete_def
        bind_io_run [of "box_metadata env box (path_str env raw)" s, OF that(2)])
  have delete_own: "box_delete env box raw s = fails_with env c s1"
    if "BoxPath env raw = Inr path"
      and "box_metadata env box (path_str env raw) s = (Inr meta, s1)"
      and "c = \<lparr>meth = ''DELETE'',
                target = BuildUrl (BASE_URL box) [''files'', path_id path] [],
                headers = [], payload = None, expects = [204], throws = DeleteError\<rparr>"
      and "answered_outside env c s1" for c
    using that orig_path_BoxPath [OF that(1)]
    by (simp add: box_delete_def bind_io_rejected
        bind_io_run [of "box_metadata env box (path_str env raw)" s, OF that(2)])
  have revisions_own: "box_revisions env box raw s = fails_with env c s"
    if "BoxPath env raw = Inr path"
      and "c = \<lparr>meth = ''GET'',
                target = BuildUrl (BASE_URL box) [''files'', path_id path, ''versions''] [],
                headers = [], payload = None, expects = [200], throws = RevisionsError\<rparr>"
      and "answered_outside env c s" for c
    using that by (simp add: box_revisions_def bind_io_rejected)
  have revisions_probe: "box_revisions env box raw s = (Inl e, s2)"
    if "BoxPath env raw = Inr path"
      and "c = \<lparr>meth = ''GET'',
                target = BuildUrl (BASE_URL box) [''files'', path_id path, ''versions''] [],
                headers = [], payload = None, expects = [200], throws = RevisionsError\<rparr>"
      and "make_request env c s = (Inr resp, s1)"
      and "json_result resp = Inr data"
      and "box_metadata env box (path_str env raw) s1 = (Inl e, s2)" for c
  proof -
    have req: "make_request env
        \<lparr>meth = ''GET'',
         target = BuildUrl (BASE_URL box) [''files'', path_id path, ''versions''] [],
         headers = [], payload = None, expects = [200], throws = RevisionsError\<rparr> s
        = (Inr resp, s1)"
      using that(2,3) by simp
    show ?thesis
      using that(1,4) orig_path_BoxPath [OF that(1)]
      by (simp add: box_revisions_def
          bind_io_run [of "make_request env
            \<lparr>meth = ''GET'',
             target = BuildUrl (BASE_URL box) [''files'', path_id path, ''versions''] [],
             headers = [], payload = None, expects = [200], throws = RevisionsError\<rparr>" s,
            OF req]
          bind_io_run [of "box_metadata env box (path_str env raw)" s1, OF that(5)])
  qed
  have upload_caught: "box_upload env box strm raw s =
        bind_io (box_upload_create env box strm upath) (box_upload_result env box True) s1"
    if "BoxPath env (os_path_join (folder box) raw) = Inr upath"
      and "box_metadata env box (path_str env (orig_path upath)) s = (Inl e, s1)"
      and "is_metadata_error e"
    using that(1,3)
    by (simp add: box_upload_def
        try_except_metadata_run [of "box_metadata env box (path_str env (orig_path upath))" s,
          OF that(2)])
  have upload_create: "box_upload env box strm raw s = fails_with env c s1"
    if "BoxPath env (os_path_join (folder box) raw) = Inr upath"
      and "box_metadata env box (path_str env (orig_path upath)) s = (Inl e, s1)"
      and "is_metadata_error e"
      and "make_upload_data env strm (path_id upath) (path_name env (orig_path upath))
        = Inr (body, boundary, nbytes)"
      and "c = \<lparr>meth = ''POST'',
                target = BuildUrl (BASE_UPLOAD_URL box) [''files'', ''content''] [],
                headers = [(''Content-Length'', str_nat nbytes),
                           (''Content-Type'', ''multipart/form-data; boundary='' @ boundary)],
                payload = Some body, expects = [200, 201], throws = UploadError\<rparr>"
      and "answered_outside env c s1" for c
  proof -
    have "box_upload_create env box strm upath s1 = fails_with env c s1"
      using that(4,5,6) by (simp add: box_upload_create_def bind_io_rejected)
    then show ?thesis
      using upload_caught [OF that(1,2,3)]
      by (simp add: bind_io_def fails_with_def)
  qed
  have upload_update: "box_upload env box strm raw s = fails_with env c s1"
    if "BoxPath env (os_path_join (folder box) raw) = Inr upath"
      and "box_metadata env box (path_str env (orig_path upath)) s = (Inr meta, s1)"
      and "getitem_str meta ''path'' = Inr mp"
      and "BoxPath_of_value env mp = Inr meta_path"
      and "make_upload_data env strm (path_id upath) (path_name env (orig_path upath))
        = Inr (body, boundary, nbytes)"
      and "c = \<lparr>meth = ''POST'',
                target = BuildUrl (BASE_UPLOAD_URL box)
                           [''files'', path_id meta_path, ''content''] [],
                headers = [(''Content-Length'', str_nat nbytes),
                           (''Content-Type'', ''multipart/form-data; boundary='' @ boundary)],
                payload = Some body, expects = [200, 201], throws = UploadError\<rparr>"
      and "answered_outside env c s1" for c
  proof -
    have "box_upload_update env box strm upath meta s1 = fails_with env c s1"
      using that(3,4,5,6,7) by (simp add: box_upload_update_def bind_io_rejected)
    moreover have "box_upload env box strm raw s =
        bind_io (box_upload_update env box strm upath meta) (box_upload_result env box False) s1"
      using that(1)
      by (simp add: box_upload_def
          try_except_metadata_run [of "box_metadata env box (path_str env (orig_path upath))" s,
            OF that(2)])
    ultimately show ?thesis
      by (simp add: bind_io_def fails_with_def)
  qed
  have oc_meta: "oc_metadata env oc raw s = fails_with env c s"
    if "path_ok env False True raw" and "\<not> is_dir raw"
      and "c = \<lparr>meth = ''PROPFIND'',
                target = PlainUrl (webdav_url oc @ path_path env False True raw),
                headers = [], payload = None, expects = [207], throws = MetadataError\<rparr>"
      and "answered_outside env c s" for c
    using that
    by (simp add: oc_metadata_def OwnCloudPath_def wb_path_init_def oc_metadata_file_def
        bind_io_rejected)
  have oc_get: "oc_download env oc raw s = fails_with env c s"
    if "path_ok env False True raw" and "is_file raw"
      and "c = \<lparr>meth = ''GET'',
                target = PlainUrl (webdav_url oc @ path_path env False True raw),
                headers = [], payload = None, expects = [200], throws = DownloadError\<rparr>"
      and "answered_outside env c s" for c
    using that
    by (simp add: oc_download_def OwnCloudPath_def wb_path_init_def bind_io_rejected
        make_request_rejected)
  have oc_put: "oc_upload env oc strm raw s = fails_with env c s"
    if "c = \<lparr>meth = ''PUT'', target = PlainUrl (webdav_url oc @ raw),
             headers = [(''Content-Length'', str_size (stream_size strm))],
             payload = Some strm, expects = [201], throws = UploadError\<rparr>"
      and "answered_outside env c s" for c
    using that by (simp add: oc_upload_def bind_io_rejected)
  have oc_del: "oc_delete env oc raw s = fails_with env c s"
    if "c = \<lparr>meth = ''DELETE'', target = PlainUrl (webdav_url oc @ raw),
             headers = [], payload = None, expects = [204], throws = DeleteError\<rparr>"
      and "answered_outside env c s" for c
    using that by (simp add: oc_delete_def bind_io_rejected)
  show ?thesis
    unfolding Let_def
    apply (insert shape)
    apply (elim conjE)
    apply (intro conjI impI)
                        apply assumption+
                apply (rule download [OF _ refl]; assumption)
               apply (rule metadata [OF _ refl]; assumption)
              apply (rule delete_probe; assumption)
             apply (rule delete_own [OF _ _ refl]; assumption)
            apply (rule revisions_own [OF _ refl]; assumption)
           apply (rule revisions_probe [OF _ refl]; assumption)
          apply (rule upload_caught; assumption)
         apply (rule upload_create [OF _ _ _ _ refl]; assumption)
        apply (rule upload_update [OF _ _ _ _ _ refl]; assumption)
       apply (rule oc_meta [OF _ _ refl]; assumption)
      apply (rule oc_get [OF _ _ refl]; assumption)
     apply (rule oc_put [OF refl]; assumption)
    apply (rule oc_del [OF refl]; assumption)
    done
qed

theorem status_propagation_witness:
  "box_delete demo_env demo_box ''/42''
     (start [answer 200 (VDict [(''id'', VStr ''42'')]), answer 500 VNone]) =
     (Inl (WBError DeleteError (Some 500) ''xml''),
      \<lparr>world = [],
       issued = [(\<lparr>meth = ''GET'', target = BuildUrl ''api'' [''files'', ''42''] [],
                   headers = [], payload = None, expects = [200], throws = MetadataError\<rparr>,
                  answer 200 (VDict [(''id'', VStr ''42'')])),
                 (\<lparr>meth = ''DELETE'', target = BuildUrl ''api'' [''files'', ''42''] [],
                   headers = [], payload = None, expects = [204], throws = DeleteError\<rparr>,
                  answer 500 VNone)]\<rparr>)"
proof -
  let ?s = "start [answer 200 (VDict [(''id'', VStr ''42'')]), answer 500 VNone]"
  let ?s1 = "\<lparr>world = [answer 500 VNone],
       issued = [(\<lparr>meth = ''GET'', target = BuildUrl ''api'' [''files'', ''42''] [],
                   headers = [], payload = None, expects = [200], throws = MetadataError\<rparr>,
                  answer 200 (VDict [(''id'', VStr ''42'')]))]\<rparr>"
  let ?c = "\<lparr>meth = ''DELETE'', target = BuildUrl ''api'' [''files'', ''42''] [],
                   headers = [], payload = None, expects = [204], throws = DeleteError\<rparr>"
  have p: "BoxPath demo_env ''/42'' = Inr \<lparr>orig_path = ''/42'', path_id = ''42''\<rparr>"
    by (simp add: demo_run_defs)
  have probe: "box_metadata demo_env demo_box (path_str demo_env ''/42'') ?s =
     (Inr (VDict [(''id'', VStr ''42'')]), ?s1)"
    by (simp add: demo_run_defs)
  have bad: "answered_outside demo_env ?c ?s1"
    by (simp add: answered_outside_def demo_env_def scripted_def answer_def)
  from status_propagation [where env = demo_env and box = demo_box and raw = "''/42''"
      and path = "\<lparr>orig_path = ''/42'', path_id = ''42''\<rparr>"
      and meta = "VDict [(''id'', VStr ''42'')]" and s = ?s and ?s1.0 = ?s1,
      THEN conjunct2, THEN conjunct2, THEN conjunct2, THEN conjunct2, THEN conjunct2,
      THEN conjunct2, THEN conjunct2, THEN conjunct2, THEN conjunct2, THEN conjunct2,
      THEN conjunct2, THEN conjunct2, THEN conjunct1]
  have "BoxPath demo_env ''/42'' = Inr \<lparr>orig_path = ''/42'', path_id = ''42''\<rparr> \<longrightarrow>
      box_metadata demo_env demo_box (path_str demo_env ''/42'') ?s =
        (Inr (VDict [(''id'', VStr ''42'')]), ?s1) \<longrightarrow>
      (let c = \<lparr>meth = ''DELETE'',
                target = BuildUrl (BASE_URL demo_box)
                  [''files'', path_id \<lparr>orig_path = ''/42'', path_id = ''42''\<rparr>] [],
                headers = [], payload = None, expects = [204], throws = DeleteError\<rparr>
       in answered_outside demo_env c ?s1 \<longrightarrow>
          box_delete demo_env demo_box ''/42'' ?s = fails_with demo_env c ?s1)" .
  with p probe bad have "box_delete demo_env demo_box ''/42'' ?s = fails_with demo_env ?c ?s1"
    by (simp add: Let_def demo_box_def)
  then show ?thesis
    by (simp add: fails_with_def demo_env_def scripted_def answer_def)
qed

text \<open>
  A 500 answer to the first request of the Box delete: the operation raises
  MetadataError, not DeleteError, and the DELETE is never sent.
\<close>

theorem box_delete_server_error_counterexample:
  "box_delete demo_env demo_box ''/42'' (start [answer 500 VNone]) =
     (Inl (WBError MetadataError (Some 500) ''xml''),
      \<lparr>world = [],
       issued = [(\<lparr>meth = ''GET'', target = BuildUrl ''api'' [''files'', ''42''] [],
                   headers = [], payload = None, expects = [200], throws = MetadataError\<rparr>,
                  answer 500 VNone)]\<rparr>)"
  by (simp add: box_delete_def demo_run_defs)

section \<open>Deleting\<close>

text \<open>
  C5, as amended. For a path the Box constructor accepts, delete first runs the
  metadata operation; if that raises, delete raises the same exception (MetadataError
  for an absent target) and sends no DELETE; if it returns, delete sends one DELETE for
  the file with the path's identifier, returns \<^verbatim>\<open>None\<close> on 204 and raises DeleteError
  with the status otherwise. The WebDAV delete sends its DELETE at once, without a
  probe, returns \<^verbatim>\<open>True\<close> on 204 and raises DeleteError with the status otherwise.
\<close>

theorem delete_probe_and_request:
  assumes path: "BoxPath env raw = Inr path"
      and probe: "box_metadata env box (path_str env raw) s = (probe, s1)"
  shows "box_delete env box raw s =
           (case probe of
              Inl e \<Rightarrow> (Inl e, s1)
            | Inr meta \<Rightarrow>
                (let c = \<lparr>meth = ''DELETE'',
                          target = BuildUrl (BASE_URL box) [''files'', path_id path] [],
                          headers = [], payload = None, expects = [204],
                          throws = DeleteError\<rparr>;
                     resp = fst (transport env (world s1) c)
                 in (if status resp = 204 then Inr VNone
                     else Inl (WBError DeleteError (Some (status resp)) (read_result resp)),
                     \<lparr>world = snd (transport env (world s1) c),
                      issued = issued s1 @ [(c, resp)]\<rparr>))) \<and>
         oc_delete env oc raw' t =
           (let c = \<lparr>meth = ''DELETE'', target = PlainUrl (webdav_url oc @ raw'),
                     headers = [], payload = None, expects = [204], throws = DeleteError\<rparr>;
                resp = fst (transport env (world t) c)
            in (if status resp = 204 then Inr (VBool True)
                else Inl (WBError DeleteError (Some (status resp)) (read_result resp)),
                \<lparr>world = snd (transport env (world t) c), issued = issued t @ [(c, resp)]\<rparr>))"
proof -
  have orig: "orig_path path = raw"
    using path by (auto simp: BoxPath_def bind_sum_Inr_iff wb_path_init_def split: if_splits)
  have box: "box_delete env box raw s =
      (case probe of Inl e \<Rightarrow> (Inl e, s1)
       | Inr meta \<Rightarrow> bind_io (make_request env
           \<lparr>meth = ''DELETE'', target = BuildUrl (BASE_URL box) [''files'', path_id path] [],
            headers = [], payload = None, expects = [204], throws = DeleteError\<rparr>)
           (\<lambda>resp. ret VNone) s1)"
    by (simp add: box_delete_def path orig
        bind_io_run [of "box_metadata env box (path_str env raw)" s, OF probe])
  show ?thesis
    by (cases probe)
       (simp_all add: box oc_delete_def bind_io_make_request Let_def ret_def)
qed

theorem delete_probe_and_request_witness:
  "box_delete demo_env demo_box ''/42''
     (start [answer 200 (VDict [(''id'', VStr ''42'')]), answer 204 VNone]) =
     (Inr VNone,
      \<lparr>world = [],
       issued = [(\<lparr>meth = ''GET'', target = BuildUrl ''api'' [''files'', ''42''] [],
                   headers = [], payload = None, expects = [200], throws = MetadataError\<rparr>,
                  answer 200 (VDict [(''id'', VStr ''42'')])),
                 (\<lparr>meth = ''DELETE'', target = BuildUrl ''api'' [''files'', ''42''] [],
                   headers = [], payload = None, expects = [204], throws = DeleteError\<rparr>,
                  answer 204 VNone)]\<rparr>) \<and>
   oc_delete demo_env demo_oc ''/a.txt'' (start [answer 404 VNone]) =
     (Inl (WBError DeleteError (Some 404) ''xml''),
      \<lparr>world = [],
       issued = [(\<lparr>meth = ''DELETE'', target = PlainUrl ''dav//a.txt'', headers = [],
                   payload = None, expects = [204], throws = DeleteError\<rparr>,
                  answer 404 VNone)]\<rparr>)"
proof -
  have p: "BoxPath demo_env ''/42'' = Inr \<lparr>orig_path = ''/42'', path_id = ''42''\<rparr>"
    by (simp add: demo_run_defs)
  have probe: "box_metadata demo_env demo_box (path_str demo_env ''/42'')
       (start [answer 200 (VDict [(''id'', VStr ''42'')]), answer 204 VNone]) =
     (Inr (VDict [(''id'', VStr ''42'')]),
      \<lparr>world = [answer 204 VNone],
       issued = [(\<lparr>meth = ''GET'', target = BuildUrl ''api'' [''files'', ''42''] [],
                   headers = [], payload = None, expects = [200], throws = MetadataError\<rparr>,
                  answer 200 (VDict [(''id'', VStr ''42'')]))]\<rparr>)"
    by (simp add: demo_run_defs)
  from delete_probe_and_request [OF p probe, of demo_oc "''/a.txt''" "start [answer 404 VNone]"]
  show ?thesis
    by (simp add: Let_def demo_env_def demo_box_def demo_oc_def scripted_def start_def answer_def)
qed

text \<open>
  The Box delete of an absent target: the probe is answered 404 and delete fails with
  MetadataError; the 204 the backend would have given to a DELETE is never asked for.
\<close>

theorem box_delete_absent_target_counterexample:
  "box_delete demo_env demo_box ''/42'' (start [answer 404 VNone, answer 204 VNone]) =
     (Inl (WBError MetadataError (Some 404) ''xml''),
      \<lparr>world = [answer 204 VNone],
       issued = [(\<lparr>meth = ''GET'', target = BuildUrl ''api'' [''files'', ''42''] [],
                   headers = [], payload = None, expects = [200], throws = MetadataError\<rparr>,
                  answer 404 VNone)]\<rparr>)"
  by (simp add: box_delete_def demo_run_defs)

section \<open>What upload returns\<close>

lemma box_upload_result_Inr:
  assumes "box_upload_result env self created data s = (Inr v, s')"
  shows "s' = s \<and> (\<exists>entries entry m.
           getitem_str data ''entries'' = Inr entries \<and>
           getitem_first entries = Inr entry \<and>
           box_file_metadata env entry (folder self) = Inr m \<and>
           v = VTuple [m, VBool created])"
  using assms
  by (auto simp: box_upload_result_def bind_io_lift_Inr_iff ret_Inr_iff)

lemma box_upload_create_Inr:
  assumes "box_upload_create env self strm path s = (Inr data, s')"
  shows "\<exists>c resp. issued s' = issued s @ [(c, resp)] \<and> throws c = UploadError \<and>
           json_result resp = Inr data"
  using assms
  by (auto simp: box_upload_create_def bind_io_lift_Inr_iff bind_io_Inr_iff
        make_request_Inr_iff lift_Inr_iff split: prod.splits)

lemma box_upload_update_Inr:
  assumes "box_upload_update env self strm path meta s = (Inr data, s')"
  shows "\<exists>c resp. issued s' = issued s @ [(c, resp)] \<and> throws c = UploadError \<and>
           json_result resp = Inr data"
  using assms
  by (auto simp: box_upload_update_def bind_io_lift_Inr_iff bind_io_Inr_iff
        make_request_Inr_iff lift_Inr_iff split: prod.splits)

text \<open>
  C2, as amended. Whenever the Box upload returns a value, the value is a pair of a
  record and a flag: the flag is \<^verbatim>\<open>True\<close> exactly when the metadata probe raised (and
  then it raised MetadataError) and \<^verbatim>\<open>False\<close> when the probe returned, so what a
  second upload to the same path reports is decided by what the backend then answers
  to the probe of the path's identifier; after the probe exactly one request was sent,
  the upload, and the record is serialized from the first of the \<^verbatim>\<open>entries\<close> of the
  backend's answer to it, not from the request path. The WebDAV upload sends one PUT
  that expects 201 and returns the bare value \<^verbatim>\<open>True\<close> on 201, whether or not the path
  existed, and raises UploadError on any other status; it returns no record.
\<close>

theorem upload_results:
  "(\<forall>v s'. box_upload env box strm raw s = (Inr v, s') \<longrightarrow>
      (\<exists>path probe s1 c resp data entries entry m.
         BoxPath env (os_path_join (folder box) raw) = Inr path \<and>
         box_metadata env box (path_str env (orig_path path)) s = (probe, s1) \<and>
         (\<forall>e. probe = Inl e \<longrightarrow> is_metadata_error e) \<and>
         issued s' = issued s1 @ [(c, resp)] \<and> throws c = UploadError \<and>
         json_result resp = Inr data \<and>
         getitem_str data ''entries'' = Inr entries \<and>
         getitem_first entries = Inr entry \<and>
         box_file_metadata env entry (folder box) = Inr m \<and>
         v = VTuple [m, VBool (isl probe)])) \<and>
   oc_upload env oc strm raw' t =
     (let c = \<lparr>meth = ''PUT'', target = PlainUrl (webdav_url oc @ raw'),
               headers = [(''Content-Length'', str_size (stream_size strm))],
               payload = Some strm, expects = [201], throws = UploadError\<rparr>;
          resp = fst (transport env (world t) c)
      in (if status resp = 201 then Inr (VBool True)
          else Inl (WBError UploadError (Some (status resp)) (read_result resp)),
          \<lparr>world = snd (transport env (world t) c), issued = issued t @ [(c, resp)]\<rparr>))"
proof (intro conjI allI impI)
  fix v s'
  assume run: "box_upload env box strm raw s = (Inr v, s')"
  then obtain path where path: "BoxPath env (os_path_join (folder box) raw) = Inr path"
    by (cases "BoxPath env (os_path_join (folder box) raw)") (auto simp: box_upload_def)
  obtain probe s1 where probe: "box_metadata env box (path_str env (orig_path path)) s = (probe, s1)"
    by (cases "box_metadata env box (path_str env (orig_path path)) s")
  have unfolded: "box_upload env box strm raw s =
      (case probe of
         Inl e \<Rightarrow> if is_metadata_error e
                  then bind_io (box_upload_create env box strm path) (box_upload_result env box True) s1
                  else (Inl e, s1)
       | Inr meta \<Rightarrow> bind_io (box_upload_update env box strm path meta)
                       (box_upload_result env box False) s1)"
    by (simp add: box_upload_def path
        try_except_metadata_run [of "box_metadata env box (path_str env (orig_path path))" s, OF probe])
  have "\<exists>c resp data entries entry m.
         (\<forall>e. probe = Inl e \<longrightarrow> is_metadata_error e) \<and>
         issued s' = issued s1 @ [(c, resp)] \<and> throws c = UploadError \<and>
         json_result resp = Inr data \<and>
         getitem_str data ''entries'' = Inr entries \<and>
         getitem_first entries = Inr entry \<and>
         box_file_metadata env entry (folder box) = Inr m \<and>
         v = VTuple [m, VBool (isl probe)]"
  proof (cases probe)
    case (Inl e)
    with run unfolded have me: "is_metadata_error e"
      by (auto split: if_splits)
    with Inl run unfolded obtain data s2 where
      c: "box_upload_create env box strm path s1 = (Inr data, s2)" and
      r: "box_upload_result env box True data s2 = (Inr v, s')"
      by (auto simp: bind_io_Inr_iff)
    from box_upload_create_Inr [OF c] box_upload_result_Inr [OF r] Inl me show ?thesis
      by auto
  next
    case (Inr meta)
    with run unfolded obtain data s2 where
      c: "box_upload_update env box strm path meta s1 = (Inr data, s2)" and
      r: "box_upload_result env box False data s2 = (Inr v, s')"
      by (auto simp: bind_io_Inr_iff)
    from box_upload_update_Inr [OF c] box_upload_result_Inr [OF r] Inr show ?thesis
      by auto
  qed
  with path probe show "\<exists>path probe s1 c resp data entries entry m.
         BoxPath env (os_path_join (folder box) raw) = Inr path \<and>
         box_metadata env box (path_str env (orig_path path)) s = (probe, s1) \<and>
         (\<forall>e. probe = Inl e \<longrightarrow> is_metadata_error e) \<and>
         issued s' = issued s1 @ [(c, resp)] \<and> throws c = UploadError \<and>
         json_result resp = Inr data \<and>
         getitem_str data ''entries'' = Inr entries \<and>
         getitem_first entries = Inr entry \<and>
         box_file_metadata env entry (folder box) = Inr m \<and>
         v = VTuple [m, VBool (isl probe)]"
    by blast
next
  show "oc_upload env oc strm raw' t =
     (let c = \<lparr>meth = ''PUT'', target = PlainUrl (webdav_url oc @ raw'),
               headers = [(''Content-Length'', str_size (stream_size strm))],
               payload = Some strm, expects = [201], throws = UploadError\<rparr>;
          resp = fst (transport env (world t) c)
      in (if status resp = 201 then Inr (VBool True)
          else Inl (WBError UploadError (Some (status resp)) (read_result resp)),
          \<lparr>world = snd (transport env (world t) c), issued = issued t @ [(c, resp)]\<rparr>))"
    by (simp add: oc_upload_def bind_io_make_request Let_def ret_def)
qed

theorem upload_results_witness:
  "box_upload demo_env demo_box \<lparr>stream_size = Some 5, stream_data = ''hello''\<rparr> ''/42''
     (start [answer 404 VNone,
             answer 201 (VDict [(''entries'', VList [VDict [(''path'', VStr ''/77'')]])])]) =
   (Inr (VTuple [VDict [(''path'', VStr ''/77'')], VBool True]),
    \<lparr>world = [],
     issued =
       [(\<lparr>meth = ''GET'', target = BuildUrl ''api'' [''files'', ''42''] [],
          headers = [], payload = None, expects = [200], throws = MetadataError\<rparr>,
         answer 404 VNone),
        (\<lparr>meth = ''POST'', target = BuildUrl ''up'' [''files'', ''content''] [],
          headers = [(''Content-Length'', ''5''),
                     (''Content-Type'', ''multipart/form-data; boundary=b'')],
          payload = Some \<lparr>stream_size = Some 5, stream_data = ''hello''\<rparr>,
          expects = [200, 201], throws = UploadError\<rparr>,
         answer 201 (VDict [(''entries'', VList [VDict [(''path'', VStr ''/77'')]])]))]\<rparr>) \<and>
   oc_upload demo_env demo_oc \<lparr>stream_size = Some 5, stream_data = ''hello''\<rparr> ''/a.txt''
     (start [answer 204 VNone]) =
   (Inl (WBError UploadError (Some 204) ''xml''),
    \<lparr>world = [],
     issued = [(\<lparr>meth = ''PUT'', target = PlainUrl ''dav//a.txt'',
                 headers = [(''Content-Length'', ''5'')],
                 payload = Some \<lparr>stream_size = Some 5, stream_data = ''hello''\<rparr>,
                 expects = [201], throws = UploadError\<rparr>, answer 204 VNone)]\<rparr>)"
  (is "?box = ?boxres \<and> ?oc = ?ocres")
proof -
  have run: "?box = ?boxres"
    by (simp add: demo_run_defs)
  have oc: "?oc = ?ocres"
    using upload_results [of demo_env demo_box "\<lparr>stream_size = Some 5, stream_data = ''hello''\<rparr>"
        "''/42''" "start []" demo_oc "''/a.txt''" "start [answer 204 VNone]"]
    by (simp add: Let_def demo_env_def demo_oc_def scripted_def start_def answer_def
        str_nat.simps)
  from run oc show ?thesis by simp
qed

text \<open>
  Two WebDAV uploads to the same path, both answered 201: each returns \<^verbatim>\<open>True\<close>, which
  is not a pair, and the second does not report \<^verbatim>\<open>False\<close>. Two Box uploads to the path
  \<^verbatim>\<open>/42/b.txt\<close> on the storing backend, which starts empty: both probe the identifier
  \<^verbatim>\<open>42\<close>, which the backend never holds as a file, so both create (the files \<^verbatim>\<open>f0\<close>
  and \<^verbatim>\<open>f1\<close>) and both report \<^verbatim>\<open>True\<close>; the records carry the paths \<^verbatim>\<open>/f0\<close> and
  \<^verbatim>\<open>/f1\<close>, not the request path.
\<close>

theorem upload_contract_counterexample:
  "fst (oc_upload demo_env demo_oc \<lparr>stream_size = Some 5, stream_data = ''hello''\<rparr> ''/a.txt''
         (start [answer 201 VNone, answer 201 VNone])) = Inr (VBool True) \<and>
   fst (oc_upload demo_env demo_oc \<lparr>stream_size = Some 5, stream_data = ''hello''\<rparr> ''/a.txt''
         (snd (oc_upload demo_env demo_oc \<lparr>stream_size = Some 5, stream_data = ''hello''\<rparr>
                 ''/a.txt'' (start [answer 201 VNone, answer 201 VNone])))) = Inr (VBool True) \<and>
   fst (box_upload store_env demo_box \<lparr>stream_size = Some 5, stream_data = ''hello''\<rparr>
         ''/42/b.txt'' \<lparr>world = [], issued = []\<rparr>) =
     Inr (VTuple [VDict [(''id'', VStr ''f0''), (''path'', VStr ''/f0'')], VBool True]) \<and>
   world (snd (box_upload store_env demo_box \<lparr>stream_size = Some 5, stream_data = ''hello''\<rparr>
         ''/42/b.txt'' \<lparr>world = [], issued = []\<rparr>)) = [''f0''] \<and>
   fst (box_upload store_env demo_box \<lparr>stream_size = Some 5, stream_data = ''hello''\<rparr>
         ''/42/b.txt''
         (snd (box_upload store_env demo_box \<lparr>stream_size = Some 5, stream_data = ''hello''\<rparr>
                 ''/42/b.txt'' \<lparr>world = [], issued = []\<rparr>))) =
     Inr (VTuple [VDict [(''id'', VStr ''f1''), (''path'', VStr ''/f1'')], VBool True])"
proof -
  have first: "box_upload store_env demo_box \<lparr>stream_size = Some 5, stream_data = ''hello''\<rparr>
         ''/42/b.txt'' \<lparr>world = [], issued = []\<rparr> =
     (Inr (VTuple [VDict [(''id'', VStr ''f0''), (''path'', VStr ''/f0'')], VBool True]),
      \<lparr>world = [''f0''],
       issued =
         [(\<lparr>meth = ''GET'', target = BuildUrl ''api'' [''files'', ''42''] [],
            headers = [], payload = None, expects = [200], throws = MetadataError\<rparr>,
           \<lparr>status = 404, json_result = Inr VNone, read_result = []\<rparr>),
          (\<lparr>meth = ''POST'', target = BuildUrl ''up'' [''files'', ''content''] [],
            headers = [(''Content-Length'', ''5''),
                       (''Content-Type'', ''multipart/form-data; boundary=b'')],
            payload = Some \<lparr>stream_size = Some 5, stream_data = ''hello''\<rparr>,
            expects = [200, 201], throws = UploadError\<rparr>,
           \<lparr>status = 201,
            json_result = Inr (VDict [(''entries'', VList [VDict [(''id'', VStr ''f0'')]])]),
            read_result = []\<rparr>)]\<rparr>)"
    by (simp add: box_upload_def box_upload_create_def box_upload_result_def
        box_metadata_def box_get_file_meta_def BoxPath_def os_path_join_def
        try_except_metadata_def bind_sum_def wb_path_init_def py_split_def is_file_def
        is_dir_def make_request_run store_env_def store_transport_def demo_box_def
        lift_def ret_def raise_def bind_io_def str_nat.simps Let_def)
  have second: "fst (box_upload store_env demo_box \<lparr>stream_size = Some 5, stream_data = ''hello''\<rparr>
         ''/42/b.txt''
         \<lparr>world = [''f0''],
       issued =
         [(\<lparr>meth = ''GET'', target = BuildUrl ''api'' [''files'', ''42''] [],
            headers = [], payload = None, expects = [200], throws = MetadataError\<rparr>,
           \<lparr>status = 404, json_result = Inr VNone, read_result = []\<rparr>),
          (\<lparr>meth = ''POST'', target = BuildUrl ''up'' [''files'', ''content''] [],
            headers = [(''Content-Length'', ''5''),
                       (''Content-Type'', ''multipart/form-data; boundary=b'')],
            payload = Some \<lparr>stream_size = Some 5, stream_data = ''hello''\<rparr>,
            expects = [200, 201], throws = UploadError\<rparr>,
           \<lparr>status = 201,
            json_result = Inr (VDict [(''entries'', VList [VDict [(''id'', VStr ''f0'')]])]),
            read_result = []\<rparr>)]\<rparr>) =
     Inr (VTuple [VDict [(''id'', VStr ''f1''), (''path'', VStr ''/f1'')], VBool True])"
    by (simp add: box_upload_def box_upload_create_def box_upload_result_def
        box_metadata_def box_get_file_meta_def BoxPath_def os_path_join_def
        try_except_metadata_def bind_sum_def wb_path_init_def py_split_def is_file_def
        is_dir_def make_request_run store_env_def store_transport_def demo_box_def
        lift_def ret_def raise_def bind_io_def str_nat.simps Let_def)
  have oc: "fst (oc_upload demo_env demo_oc \<lparr>stream_size = Some 5, stream_data = ''hello''\<rparr> ''/a.txt''
         (start [answer 201 VNone, answer 201 VNone])) = Inr (VBool True) \<and>
   fst (oc_upload demo_env demo_oc \<lparr>stream_size = Some 5, stream_data = ''hello''\<rparr> ''/a.txt''
         (snd (oc_upload demo_env demo_oc \<lparr>stream_size = Some 5, stream_data = ''hello''\<rparr>
                 ''/a.txt'' (start [answer 201 VNone, answer 201 VNone])))) = Inr (VBool True)"
    by (simp add: oc_upload_def demo_oc_def demo_run_defs)
  from oc second show ?thesis
    by (simp only: first fst_conv snd_conv sys.simps simp_thms)
qed

end
